theory Spec2Isabelle
  imports Complex_Main
begin

section \<open>Errors and tensors\<close>

text \<open>
  The module \<^verbatim>\<open>schnetpack/representation/schnet.py\<close> is a PyTorch module. Every
  exception a call can raise is a value of \<open>error\<close>; a computation that may raise returns
  \<open>error + 'a\<close> with \<open>Inl\<close> for the exception.
\<close>

datatype error = KeyError | IndexError | RuntimeError | AttributeError | ZeroDivisionError

definition bnd :: "error + 'a \<Rightarrow> ('a \<Rightarrow> error + 'b) \<Rightarrow> error + 'b" where
  "bnd r f = (case r of Inl e \<Rightarrow> Inl e | Inr v \<Rightarrow> f v)"

text \<open>
  A tensor is its shape and its elements in row-major order. The element type is a
  parameter: the floating-point numbers of the program are not modelled, only the
  operations \<open>0\<close>, \<open>+\<close>, \<open>*\<close> and \<open>/\<close> that the code applies to them, and no algebraic law
  about them is used anywhere. A tensor of the program has as many elements as the
  product of its shape; \<open>elem_at\<close> reads one of them by its index in each dimension.
\<close>

datatype 'a tensor = Tensor (shape: "nat list") (vals: "'a list")

fun indices :: "nat list \<Rightarrow> nat list list" where
  "indices [] = [[]]"
| "indices (n # ns) = concat (map (\<lambda>i. map ((#) i) (indices ns)) [0..<n])"

fun offset :: "nat list \<Rightarrow> nat list \<Rightarrow> nat" where
  "offset (n # ns) (i # is) = i * prod_list ns + offset ns is"
| "offset _ _ = 0"

definition elem_at :: "'a tensor \<Rightarrow> nat list \<Rightarrow> 'a" where
  "elem_at t idx = vals t ! offset (shape t) idx"

text \<open>Broadcasting of two shapes, aligned at the last dimension (on reversed shapes).\<close>

fun broadcast_rev :: "nat list \<Rightarrow> nat list \<Rightarrow> nat list option" where
  "broadcast_rev [] ys = Some ys"
| "broadcast_rev xs [] = Some xs"
| "broadcast_rev (x # xs) (y # ys) =
     (if x = y \<or> y = 1 then map_option ((#) x) (broadcast_rev xs ys)
      else if x = 1 then map_option ((#) y) (broadcast_rev xs ys)
      else None)"

definition broadcast_shapes :: "nat list \<Rightarrow> nat list \<Rightarrow> nat list option" where
  "broadcast_shapes a b = map_option rev (broadcast_rev (rev a) (rev b))"

definition bidx :: "nat list \<Rightarrow> nat list \<Rightarrow> nat list" where
  "bidx s idx = map2 (\<lambda>d i. if d = 1 then 0 else i) s (drop (length idx - length s) idx)"

definition tensor_binop ::
  "('a \<Rightarrow> 'a \<Rightarrow> 'a) \<Rightarrow> 'a tensor \<Rightarrow> 'a tensor \<Rightarrow> error + 'a tensor" where
  "tensor_binop f a b =
     (case broadcast_shapes (shape a) (shape b) of
        None \<Rightarrow> Inl RuntimeError
      | Some s \<Rightarrow>
          Inr (Tensor s (map (\<lambda>idx. f (elem_at a (bidx (shape a) idx)) (elem_at b (bidx (shape b) idx)))
                           (indices s))))"

definition tensor_add :: "'a::plus tensor \<Rightarrow> 'a tensor \<Rightarrow> error + 'a tensor" where
  "tensor_add = tensor_binop (+)"

definition tensor_mul :: "'a::times tensor \<Rightarrow> 'a tensor \<Rightarrow> error + 'a tensor" where
  "tensor_mul = tensor_binop (*)"

definition tensor_div :: "'a::divide tensor \<Rightarrow> 'a tensor \<Rightarrow> error + 'a tensor" where
  "tensor_div = tensor_binop (divide)"

text \<open>\<^verbatim>\<open>torch.rand(shape)\<close>: the values drawn are a parameter \<open>rnd\<close>.\<close>

definition torch_rand :: "(nat \<Rightarrow> 'a) \<Rightarrow> nat list \<Rightarrow> 'a tensor" where
  "torch_rand rnd s = Tensor s (map rnd [0..<prod_list s])"

definition tensor_scale :: "'a::times tensor \<Rightarrow> 'a \<Rightarrow> 'a tensor" where
  "tensor_scale t c = Tensor (shape t) (map (\<lambda>v. v * c) (vals t))"

text \<open>
  Python slice bounds \<^verbatim>\<open>a:b\<close> on a dimension of length \<open>n\<close>: a negative bound counts
  from the end, and both are clamped to \<open>0..n\<close>.
\<close>

definition slice_bound :: "nat \<Rightarrow> int \<Rightarrow> nat" where
  "slice_bound n i = (if i < 0 then nat (max 0 (i + int n)) else min (nat i) n)"

text \<open>\<^verbatim>\<open>t[:, :, a:b]\<close>: indexing three dimensions of a tensor with fewer raises.\<close>

definition slice_dim2 :: "'a tensor \<Rightarrow> int \<Rightarrow> int \<Rightarrow> error + 'a tensor" where
  "slice_dim2 t a b =
     (if length (shape t) < 3 then Inl IndexError
      else
        let n = shape t ! 2;
            start = slice_bound n a;
            stop = slice_bound n b;
            s' = (shape t)[2 := stop - start]
        in Inr (Tensor s' (map (\<lambda>idx. elem_at t (idx[2 := idx ! 2 + start])) (indices s'))))"

text \<open>
  \<^verbatim>\<open>torch.cat((a, b), 2)\<close>: both tensors need the same number of dimensions, more than
  two, and equal extents except in dimension 2. (PyTorch skips an operand of shape
  \<open>(0,)\<close>.)
\<close>

definition cat_dim2 :: "'a tensor \<Rightarrow> 'a tensor \<Rightarrow> error + 'a tensor" where
  "cat_dim2 a b =
     (if shape b = [0] \<and> 2 < length (shape a) then Inr a
      else if shape a = [0] \<and> 2 < length (shape b) then Inr b
      else if length (shape a) \<le> 2 then Inl IndexError
      else if length (shape a) \<noteq> length (shape b)
              \<or> (shape a)[2 := 0] \<noteq> (shape b)[2 := 0] then Inl RuntimeError
      else
        let na = shape a ! 2;
            s' = (shape a)[2 := na + shape b ! 2]
        in Inr (Tensor s' (map (\<lambda>idx. if idx ! 2 < na then elem_at a idx
                                        else elem_at b (idx[2 := idx ! 2 - na]))
                               (indices s'))))"

text \<open>\<^verbatim>\<open>torch.sum(t, dim=1, keepdim=True)\<close> and \<^verbatim>\<open>t[:, None]\<close>.\<close>

definition sum_dim1_keepdim :: "'a::{zero,plus} tensor \<Rightarrow> error + 'a tensor" where
  "sum_dim1_keepdim t =
     (if length (shape t) < 2 then Inl IndexError
      else
        let s' = (shape t)[1 := 1]
        in Inr (Tensor s' (map (\<lambda>idx. foldl (+) 0 (map (\<lambda>k. elem_at t (idx[1 := k])) [0..<shape t ! 1]))
                               (indices s'))))"

definition unsqueeze1 :: "'a tensor \<Rightarrow> error + 'a tensor" where
  "unsqueeze1 t =
     (if shape t = [] then Inl IndexError
      else Inr (Tensor (hd (shape t) # 1 # tl (shape t)) (vals t)))"

section \<open>Layers used by the module\<close>

text \<open>
  Modelled from the spec: \<^verbatim>\<open>Dense\<close> (\<^verbatim>\<open>schnetpack.nn.base\<close>, a subclass of
  \<^verbatim>\<open>torch.nn.Linear\<close>) is absent from the sources at hand. It is the affine transform of
  the spec, \<open>y = act (x W\<^sup>T + b)\<close> on the last dimension, which must have extent
  \<open>in_features\<close>. The weight matrix is the function from (row, column) to its entry.
  The constructor draws the weights by Xavier's rule, which divides by
  \<open>in_features + out_features\<close> and so raises when both are zero, and sets the bias to
  zero.
\<close>

record 'a Dense =
  in_features :: nat
  out_features :: nat
  weight :: "nat \<Rightarrow> nat \<Rightarrow> 'a"
  bias :: "(nat \<Rightarrow> 'a) option"
  activation :: "('a \<Rightarrow> 'a) option"

definition Dense_init ::
  "(nat \<Rightarrow> nat \<Rightarrow> 'a) \<Rightarrow> nat \<Rightarrow> nat \<Rightarrow> bool \<Rightarrow> ('a \<Rightarrow> 'a) option \<Rightarrow> error + 'a::zero Dense" where
  "Dense_init w n_in n_out use_bias act =
     (if n_in + n_out = 0 then Inl ZeroDivisionError
      else Inr \<lparr>in_features = n_in, out_features = n_out, weight = w,
                bias = (if use_bias then Some (\<lambda>j. 0) else None), activation = act\<rparr>)"

definition Dense_row :: "'a::{zero,plus,times} Dense \<Rightarrow> 'a list \<Rightarrow> 'a list" where
  "Dense_row L x =
     map (\<lambda>j.
            let y = foldl (+) 0 (map (\<lambda>i. x ! i * weight L j i) [0..<in_features L]);
                y' = (case bias L of None \<Rightarrow> y | Some b \<Rightarrow> y + b j)
            in case activation L of None \<Rightarrow> y' | Some f \<Rightarrow> f y')
         [0..<out_features L]"

definition Dense_forward :: "'a::{zero,plus,times} Dense \<Rightarrow> 'a tensor \<Rightarrow> error + 'a tensor" where
  "Dense_forward L t =
     (if shape t = [] \<or> last (shape t) \<noteq> in_features L then Inl RuntimeError
      else
        let lead = butlast (shape t);
            n = in_features L
        in Inr (Tensor (lead @ [out_features L])
                  (concat (map (\<lambda>r. Dense_row L (take n (drop (r * n) (vals t))))
                               [0..<prod_list lead]))))"

text \<open>
  \<^verbatim>\<open>torch.nn.Embedding(num_embeddings, embedding_dim, padding_idx=0)\<close>: the constructor
  zeroes the row of the padding index, which raises when the table has no row; the lookup
  appends a dimension of extent \<open>embedding_dim\<close> and raises on an index outside the table.
\<close>

record 'a Embedding =
  num_embeddings :: nat
  embedding_dim :: nat
  table :: "nat \<Rightarrow> nat \<Rightarrow> 'a"

definition Embedding_init :: "(nat \<Rightarrow> nat \<Rightarrow> 'a::zero) \<Rightarrow> nat \<Rightarrow> nat \<Rightarrow> error + 'a Embedding" where
  "Embedding_init w n d =
     (if n = 0 then Inl IndexError
      else Inr \<lparr>num_embeddings = n, embedding_dim = d,
                table = (\<lambda>r c. if r = 0 then 0 else w r c)\<rparr>)"

definition Embedding_forward :: "'a Embedding \<Rightarrow> int tensor \<Rightarrow> error + 'a tensor" where
  "Embedding_forward E z =
     (if list_ex (\<lambda>i. i < 0 \<or> int (num_embeddings E) \<le> i) (vals z) then Inl IndexError
      else Inr (Tensor (shape z @ [embedding_dim E])
                  (concat (map (\<lambda>i. map (table E (nat i)) [0..<embedding_dim E]) (vals z)))))"

text \<open>
  The layers \<^verbatim>\<open>AtomDistances\<close>, \<^verbatim>\<open>GaussianSmearing\<close>, \<^verbatim>\<open>CFConv\<close>, the cutoff
  networks and \<^verbatim>\<open>shifted_softplus\<close> are imported by the module and not part of it: they
  are parameters, as are the values the random initialisers draw. The constructors of
  \<^verbatim>\<open>GaussianSmearing\<close>, \<^verbatim>\<open>CFConv\<close> and the cutoff networks may raise. A parameter
  tensor is identified by the layer it belongs to.
\<close>

type_synonym 'a layer = "'a tensor \<Rightarrow> error + 'a tensor"

type_synonym 'a distances_layer =
  "'a tensor \<Rightarrow> int tensor \<Rightarrow> 'a tensor \<Rightarrow> 'a tensor \<Rightarrow> 'a tensor \<Rightarrow> error + 'a tensor"

type_synonym 'a cfconv_layer =
  "'a tensor \<Rightarrow> 'a tensor \<Rightarrow> int tensor \<Rightarrow> 'a tensor \<Rightarrow> 'a tensor option \<Rightarrow> error + 'a tensor"

datatype pid = P_embedding | P_dense | P_charge | P_newpos | P_block nat nat

record 'a nn =
  init_weight :: "pid \<Rightarrow> nat \<Rightarrow> nat \<Rightarrow> 'a"
  init_vector :: "pid \<Rightarrow> nat \<Rightarrow> 'a"
  shifted_softplus :: "'a \<Rightarrow> 'a"
  AtomDistances :: "'a distances_layer"
  GaussianSmearing :: "'a \<Rightarrow> 'a \<Rightarrow> nat \<Rightarrow> bool \<Rightarrow> error + 'a layer"
  CFConv :: "pid \<Rightarrow> nat \<Rightarrow> nat \<Rightarrow> nat \<Rightarrow> 'a Dense list \<Rightarrow> 'a layer \<Rightarrow> ('a \<Rightarrow> 'a) option \<Rightarrow> bool
             \<Rightarrow> error + 'a cfconv_layer"

section \<open>SchNetInteraction\<close>

record 'a SchNetInteraction =
  filter_network :: "'a Dense list"
  cutoff_network :: "'a layer"
  cfconv :: "'a cfconv_layer"
  dense :: "'a Dense"

text \<open>
  \<^verbatim>\<open>SchNetInteraction.__init__\<close>; \<open>k\<close> tells the instances apart, each drawing its own
  initial weights.
\<close>

definition SchNetInteraction_init ::
  "'a::zero nn \<Rightarrow> nat \<Rightarrow> nat \<Rightarrow> nat \<Rightarrow> nat \<Rightarrow> 'a \<Rightarrow> ('a \<Rightarrow> error + 'a layer) \<Rightarrow> bool
     \<Rightarrow> error + 'a SchNetInteraction" where
  "SchNetInteraction_init nn k n_atom_basis n_spatial_basis n_filters cutoff cutoff_network_cls
       normalize_filter =
     bnd (Dense_init (init_weight nn (P_block k 0)) n_spatial_basis n_filters True
            (Some (shifted_softplus nn))) (\<lambda>f1.
     bnd (Dense_init (init_weight nn (P_block k 1)) n_filters n_filters True None) (\<lambda>f2.
     bnd (cutoff_network_cls cutoff) (\<lambda>cnet.
     bnd (CFConv nn (P_block k 2) n_atom_basis n_filters n_atom_basis [f1, f2] cnet
            (Some (shifted_softplus nn)) normalize_filter) (\<lambda>cf.
     bnd (Dense_init (init_weight nn (P_block k 3)) n_atom_basis n_atom_basis True None) (\<lambda>dns.
     Inr \<lparr>filter_network = [f1, f2], cutoff_network = cnet, cfconv = cf, dense = dns\<rparr>)))))"

text \<open>\<^verbatim>\<open>SchNetInteraction.forward\<close>.\<close>

definition SchNetInteraction_forward ::
  "'a::{zero,plus,times} SchNetInteraction \<Rightarrow> 'a tensor \<Rightarrow> 'a tensor \<Rightarrow> int tensor \<Rightarrow> 'a tensor
     \<Rightarrow> 'a tensor option \<Rightarrow> error + 'a tensor" where
  "SchNetInteraction_forward self x r_ij neighbors neighbor_mask f_ij =
     bnd (cfconv self x r_ij neighbors neighbor_mask f_ij) (\<lambda>v.
     bnd (Dense_forward (dense self) v) (\<lambda>v.
     Inr v))"

section \<open>SchNet\<close>

text \<open>
  The arguments of \<^verbatim>\<open>SchNet.__init__\<close>. \<^verbatim>\<open>n_filters\<close> is a number or a list
  (\<^verbatim>\<open>isinstance(n_filters, list)\<close>), \<^verbatim>\<open>cutoff_network\<close> is a class, applied to the cutoff
  radius, and \<^verbatim>\<open>selectFet\<close> is \<^verbatim>\<open>None\<close> or a column index.
\<close>

datatype n_filters_arg = Scalar nat | PerBlock "nat list"

record 'a SchNet_args =
  arg_n_atom_basis :: nat
  arg_n_filters :: n_filters_arg
  arg_n_interactions :: int
  arg_cutoff :: 'a
  arg_n_gaussians :: nat
  arg_normalize_filter :: bool
  arg_coupled_interactions :: bool
  arg_return_intermediate :: bool
  arg_max_z :: nat
  arg_cutoff_network :: "'a \<Rightarrow> error + 'a layer"
  arg_trainable_gaussians :: bool
  arg_distance_expansion :: "'a layer option"
  arg_charged_systems :: bool
  arg_use_noise :: bool
  arg_noise_mean :: 'a
  arg_noise_std :: 'a
  arg_chargeEmbedding :: bool
  arg_selectFet :: "int option"

text \<open>
  The attributes of a \<^verbatim>\<open>SchNet\<close> object. \<^verbatim>\<open>self.embedding\<close> and \<^verbatim>\<open>self.charge\<close> exist
  only when the constructor took the branch that sets them; \<open>props_dense\<close> is
  \<^verbatim>\<open>self.dense\<close>.
\<close>

record 'a SchNet =
  chargeEmbedding :: bool
  n_atom_basis :: nat
  selectFet :: "int option"
  embedding :: "'a Embedding option"
  props_dense :: "'a Dense"
  distances :: "'a distances_layer"
  distance_expansion :: "'a layer"
  interactions :: "'a SchNetInteraction list"
  use_noise :: bool
  noise_mean :: 'a
  noise_std :: 'a
  return_intermediate :: bool
  charged_systems :: bool
  charge :: "'a tensor option"
  newpos :: "'a tensor"

text \<open>
  Lines 152 to 164 of \<^verbatim>\<open>SchNet.__init__\<close>: the embedding table and the affine layer on
  the auxiliary properties. \<^verbatim>\<open>int(n_atom_basis / 2)\<close> is \<open>n_atom_basis div 2\<close>.
\<close>

definition init_features ::
  "'a::zero nn \<Rightarrow> 'a SchNet_args \<Rightarrow> error + ('a Embedding option \<times> 'a Dense)" where
  "init_features nn a =
     (let n = arg_n_atom_basis a;
          w = init_weight nn P_dense
      in if arg_chargeEmbedding a \<and> arg_selectFet a = None then
           bnd (Embedding_init (init_weight nn P_embedding) (arg_max_z a) (n div 2)) (\<lambda>e.
           bnd (Dense_init w 8 (n div 2) True None) (\<lambda>dns.
           Inr (Some e, dns)))
         else if \<not> arg_chargeEmbedding a \<and> arg_selectFet a = None then
           bnd (Dense_init w 8 n True None) (\<lambda>dns.
           Inr (None, dns))
         else if arg_chargeEmbedding a \<and> arg_selectFet a \<noteq> None then
           bnd (Embedding_init (init_weight nn P_embedding) (arg_max_z a) (n div 2)) (\<lambda>e.
           bnd (Dense_init w 1 (n div 2) True None) (\<lambda>dns.
           Inr (Some e, dns)))
         else
           bnd (Dense_init w 1 n True None) (\<lambda>dns.
           Inr (None, dns)))"

text \<open>
  Lines 178 to 222: the interaction blocks. \<^verbatim>\<open>range(n)\<close> and \<^verbatim>\<open>[b] * n\<close> are empty
  for \<open>n \<le> 0\<close>; \<^verbatim>\<open>n_filters[i]\<close> raises past the end of the list. A list
  comprehension constructs its blocks in order and stops at the first that raises;
  \<^verbatim>\<open>[b] * n\<close> constructs the one block whatever \<open>n\<close> is.
\<close>

fun construct_all :: "(nat \<Rightarrow> error + 'b) \<Rightarrow> nat list \<Rightarrow> error + 'b list" where
  "construct_all mk [] = Inr []"
| "construct_all mk (i # is) =
     bnd (mk i) (\<lambda>b. bnd (construct_all mk is) (\<lambda>bs. Inr (b # bs)))"

definition init_interactions ::
  "'a::zero nn \<Rightarrow> 'a SchNet_args \<Rightarrow> error + 'a SchNetInteraction list" where
  "init_interactions nn a =
     (let mk = (\<lambda>k f. SchNetInteraction_init nn k (arg_n_atom_basis a) (arg_n_gaussians a) f
                         (arg_cutoff a) (arg_cutoff_network a) (arg_normalize_filter a));
          n = nat (arg_n_interactions a)
      in case arg_n_filters a of
           PerBlock fs \<Rightarrow>
             construct_all (\<lambda>i. if i < length fs then mk i (fs ! i) else Inl IndexError) [0..<n]
         | Scalar f \<Rightarrow>
             if arg_coupled_interactions a then bnd (mk 0 f) (\<lambda>b. Inr (replicate n b))
             else construct_all (\<lambda>i. mk i f) [0..<n])"

text \<open>\<^verbatim>\<open>SchNet.__init__\<close>.\<close>

definition SchNet_init :: "'a::zero nn \<Rightarrow> 'a SchNet_args \<Rightarrow> error + 'a SchNet" where
  "SchNet_init nn a =
     bnd (init_features nn a) (\<lambda>(emb, dns).
     let dist = AtomDistances nn in
     bnd (case arg_distance_expansion a of
            None \<Rightarrow> GaussianSmearing nn 0 (arg_cutoff a) (arg_n_gaussians a)
                      (arg_trainable_gaussians a)
          | Some d \<Rightarrow> Inr d) (\<lambda>expansion.
     bnd (init_interactions nn a) (\<lambda>blocks.
     bnd (if arg_charged_systems a then
            if arg_n_atom_basis a = 0 then Inl ZeroDivisionError
            else Inr (Some (Tensor [1, arg_n_atom_basis a]
                              (map (init_vector nn P_charge) [0..<arg_n_atom_basis a])))
          else Inr None) (\<lambda>chg.
     Inr \<lparr>chargeEmbedding = arg_chargeEmbedding a,
          n_atom_basis = arg_n_atom_basis a,
          selectFet = arg_selectFet a,
          embedding = emb,
          props_dense = dns,
          distances = dist,
          distance_expansion = expansion,
          interactions = blocks,
          use_noise = arg_use_noise a,
          noise_mean = arg_noise_mean a,
          noise_std = arg_noise_std a,
          return_intermediate = arg_return_intermediate a,
          charged_systems = arg_charged_systems a,
          charge = chg,
          newpos = torch_rand (init_vector nn P_newpos) [1, 600, 3]\<rparr>))))"

text \<open>
  The input dictionary. Each field is the entry under one key, \<open>None\<close> when the key is
  absent; \<open>Properties_Z\<close> is \<^verbatim>\<open>inputs[Properties.Z]\<close> and so on, \<open>props\<close> is
  \<^verbatim>\<open>inputs['props']\<close>. Atomic numbers and neighbour indices are integer tensors.
\<close>

record 'a inputs =
  Properties_Z :: "int tensor option"
  Properties_R :: "'a tensor option"
  Properties_cell :: "'a tensor option"
  Properties_cell_offset :: "'a tensor option"
  Properties_neighbors :: "int tensor option"
  Properties_neighbor_mask :: "'a tensor option"
  Properties_atom_mask :: "'a tensor option"
  Properties_charge :: "'a tensor option"
  props :: "'a tensor option"

definition getitem :: "'v option \<Rightarrow> error + 'v" where
  "getitem e = (case e of None \<Rightarrow> Inl KeyError | Some v \<Rightarrow> Inr v)"

definition getattr :: "'v option \<Rightarrow> error + 'v" where
  "getattr e = (case e of None \<Rightarrow> Inl AttributeError | Some v \<Rightarrow> Inr v)"

text \<open>
  Lines 260 to 269, the loop over the selected column. It only prints, but
  \<^verbatim>\<open>props[i][k][0] == 1\<close> raises when the slice is empty, and its use as a condition
  raises unless it is a single value.
\<close>

definition selectFet_scan :: "'a tensor \<Rightarrow> error + unit" where
  "selectFet_scan p =
     (let s = shape p
      in if s ! 0 = 0 \<or> s ! 1 = 0 then Inr ()
         else if s ! 2 = 0 then Inl IndexError
         else if prod_list (drop 3 s) \<noteq> 1 then Inl RuntimeError
         else Inr ())"

text \<open>Lines 258 to 272: the auxiliary properties that feed the affine layer.\<close>

definition select_props :: "'a SchNet \<Rightarrow> 'a inputs \<Rightarrow> error + 'a tensor" where
  "select_props self inputs =
     (case selectFet self of
        Some s \<Rightarrow>
          bnd (getitem (props inputs)) (\<lambda>t.
          bnd (slice_dim2 t s (s + 1)) (\<lambda>p.
          bnd (selectFet_scan p) (\<lambda>_.
          Inr p)))
      | None \<Rightarrow> getitem (props inputs))"

text \<open>Lines 282 to 292: the initial features.\<close>

definition initial_x :: "'a::{zero,plus,times} SchNet \<Rightarrow> int tensor \<Rightarrow> 'a tensor \<Rightarrow> error + 'a tensor" where
  "initial_x self atomic_numbers prp =
     (if chargeEmbedding self then
        bnd (Dense_forward (props_dense self) prp) (\<lambda>p.
        bnd (getattr (embedding self)) (\<lambda>e.
        bnd (Embedding_forward e atomic_numbers) (\<lambda>x.
        cat_dim2 p x)))
      else Dense_forward (props_dense self) prp)"

text \<open>Lines 296 to 299: the body of the branch for charged systems.\<close>

definition add_charge ::
  "'a::{zero,plus,times,divide} SchNet \<Rightarrow> 'a inputs \<Rightarrow> 'a tensor \<Rightarrow> 'a tensor \<Rightarrow> error + 'a tensor" where
  "add_charge self inputs atom_mask x =
     bnd (sum_dim1_keepdim atom_mask) (\<lambda>n_atoms.
     bnd (getitem (Properties_charge inputs)) (\<lambda>c.
     bnd (tensor_div c n_atoms) (\<lambda>c.
     bnd (unsqueeze1 c) (\<lambda>c.
     bnd (getattr (charge self)) (\<lambda>q.
     bnd (tensor_mul c q) (\<lambda>c.
     tensor_add x c))))))"

text \<open>
  Lines 317 to 321: the loop over the interaction blocks. \<open>xs\<close> is the list of
  intermediates, which exists and grows only when \<open>ri\<close> (\<^verbatim>\<open>self.return_intermediate\<close>).
\<close>

fun interaction_loop ::
  "'a::{zero,plus,times} SchNetInteraction list \<Rightarrow> bool \<Rightarrow> 'a tensor \<Rightarrow> int tensor \<Rightarrow> 'a tensor
     \<Rightarrow> 'a tensor \<Rightarrow> 'a tensor \<Rightarrow> 'a tensor list \<Rightarrow> error + ('a tensor \<times> 'a tensor list)" where
  "interaction_loop [] ri r_ij neighbors neighbor_mask f_ij x xs = Inr (x, xs)"
| "interaction_loop (interaction # rest) ri r_ij neighbors neighbor_mask f_ij x xs =
     bnd (SchNetInteraction_forward interaction x r_ij neighbors neighbor_mask (Some f_ij)) (\<lambda>v.
     bnd (tensor_add x v) (\<lambda>x'.
     interaction_loop rest ri r_ij neighbors neighbor_mask f_ij x'
       (if ri then xs @ [x'] else xs)))"

text \<open>
  \<^verbatim>\<open>SchNet.forward\<close>, lines 248 to 312: everything before the loop. \<open>rnd\<close> gives the
  values \<^verbatim>\<open>torch.rand\<close> draws in this call. The result is what the loop reads: \<open>x\<close>,
  \<open>r_ij\<close>, \<open>neighbors\<close>, \<open>neighbor_mask\<close> and \<open>f_ij\<close>. The calls of \<^verbatim>\<open>print\<close> and the
  transfer to the GPU are left out.
\<close>

definition forward_setup ::
  "'a::{zero,plus,times,divide} SchNet \<Rightarrow> (nat \<Rightarrow> 'a) \<Rightarrow> 'a inputs
     \<Rightarrow> error + ('a tensor \<times> 'a tensor \<times> int tensor \<times> 'a tensor \<times> 'a tensor)" where
  "forward_setup self rnd inputs =
     bnd (getitem (Properties_Z inputs)) (\<lambda>atomic_numbers.
     let positions = newpos self in
     bnd (getitem (Properties_cell inputs)) (\<lambda>cell.
     bnd (getitem (Properties_cell_offset inputs)) (\<lambda>cell_offset.
     bnd (getitem (Properties_neighbors inputs)) (\<lambda>neighbors.
     bnd (getitem (Properties_neighbor_mask inputs)) (\<lambda>neighbor_mask.
     bnd (getitem (Properties_atom_mask inputs)) (\<lambda>atom_mask.
     bnd (bnd (getitem (props inputs)) (\<lambda>t. slice_dim2 t 7 8)) (\<lambda>ligand_indicator.
     bnd (select_props self inputs) (\<lambda>prp.
     bnd (initial_x self atomic_numbers prp) (\<lambda>x.
     bnd (if False \<and> charged_systems self \<and> Properties_charge inputs \<noteq> None
          then add_charge self inputs atom_mask x else Inr x) (\<lambda>x.
     let shp = shape positions;
         noise = tensor_scale (torch_rand rnd shp) (noise_mean self);
         unused = (if use_noise self then Some positions else None)
     in
     bnd (distances self positions neighbors cell cell_offset neighbor_mask) (\<lambda>r_ij.
     bnd (distance_expansion self r_ij) (\<lambda>f_ij.
     Inr (x, r_ij, neighbors, neighbor_mask, f_ij)))))))))))))"

text \<open>
  \<^verbatim>\<open>SchNet.forward\<close>: the setup, then lines 313 to 325. The result is the pair of \<open>x\<close>
  and, when intermediates are recorded, \<open>xs\<close>.
\<close>

definition SchNet_forward ::
  "'a::{zero,plus,times,divide} SchNet \<Rightarrow> (nat \<Rightarrow> 'a) \<Rightarrow> 'a inputs
     \<Rightarrow> error + ('a tensor \<times> 'a tensor list option)" where
  "SchNet_forward self rnd inputs =
     bnd (forward_setup self rnd inputs) (\<lambda>(x, r_ij, neighbors, neighbor_mask, f_ij).
     bnd (interaction_loop (interactions self) (return_intermediate self)
            r_ij neighbors neighbor_mask f_ij x [x]) (\<lambda>(x, xs).
     Inr (x, if return_intermediate self then Some xs else None)))"

section \<open>Notions used to state the properties\<close>


text \<open>One pass of the loop body on \<open>x\<close>: the block's output added to \<open>x\<close>.\<close>

definition block_step ::
  "'a::{zero,plus,times} SchNetInteraction \<Rightarrow> 'a tensor \<Rightarrow> int tensor \<Rightarrow> 'a tensor \<Rightarrow> 'a tensor
     \<Rightarrow> 'a tensor \<Rightarrow> error + 'a tensor" where
  "block_step b r_ij neighbors neighbor_mask f_ij x =
     bnd (SchNetInteraction_forward b x r_ij neighbors neighbor_mask (Some f_ij)) (tensor_add x)"


section \<open>A concrete network and batch\<close>

text \<open>
  An instance of the parameters, for running the model on a batch that the program
  accepts: since \<^verbatim>\<open>forward\<close> hands the distance layer the constructor's tensor of 600
  positions, the batch is one structure of 600 atoms, each with one neighbour and eight
  auxiliary properties.

  \<open>demo_distances\<close> is the distance layer on the shapes on which it returns: positions
  of shape \<open>(B, A, 3)\<close> or \<open>(1, A, 3)\<close> against neighbours of shape \<open>(B, A, K)\<close>, any other
  combination raising. Each entry is the Euclidean distance between an atom and its
  neighbour, shifted by the cell offset, and 0 where the mask is 0. \<open>demo_smearing\<close> is
  the Gaussian expansion with evenly spaced centres, which needs two centres at least.
  \<open>demo_cfconv\<close> stands in for the convolution: its constructor raises as the two affine
  layers inside the convolution would, its layer checks the shapes of its arguments and
  returns for every atom the masked sum of its neighbours' distances in every feature.
  All weight matrices are the identity.
\<close>

definition demo_distances :: "real distances_layer" where
  "demo_distances positions neighbors cell cell_offset neighbor_mask =
     (if length (shape positions) = 3 \<and> length (shape neighbors) = 3 then
        let Bp = shape positions ! 0;
            B = shape neighbors ! 0;
            A = shape neighbors ! 1;
            K = shape neighbors ! 2
        in if (Bp = B \<or> Bp = 1) \<and> shape positions ! 1 = A \<and> shape positions ! 2 = 3
              \<and> shape cell = [B, 3, 3] \<and> shape cell_offset = [B, A, K, 3]
              \<and> shape neighbor_mask = [B, A, K] then
             if list_ex (\<lambda>j. j < - int A \<or> int A \<le> j) (vals neighbors) then Inl IndexError
             else
               Inr (Tensor [B, A, K]
                 (map (\<lambda>idx.
                         let b = idx ! 0;
                             a = idx ! 1;
                             bp = (if Bp = 1 then 0 else b);
                             j = elem_at neighbors idx;
                             row = nat (if j < 0 then j + int A else j);
                             vec = (\<lambda>d. elem_at positions [bp, row, d] - elem_at positions [bp, a, d]
                                        + foldl (+) 0
                                            (map (\<lambda>e. elem_at cell_offset (idx @ [e])
                                                        * elem_at cell [b, e, d]) [0, 1, 2]));
                             dist = sqrt (foldl (+) 0 (map (\<lambda>d. (vec d)\<^sup>2) [0, 1, 2]))
                         in if elem_at neighbor_mask idx = 0 then 0 else dist)
                      (indices [B, A, K])))
           else Inl RuntimeError
      else Inl RuntimeError)"

definition demo_smearing_layer :: "real \<Rightarrow> real \<Rightarrow> nat \<Rightarrow> real layer" where
  "demo_smearing_layer start stop n r =
     Inr (Tensor (shape r @ [n])
            (concat (map (\<lambda>v. map (\<lambda>k. let w = (stop - start) / real (n - 1)
                                          in exp (- (1 / 2) / w\<^sup>2 * (v - (start + real k * w))\<^sup>2))
                                    [0..<n])
                         (vals r))))"

definition demo_smearing :: "real \<Rightarrow> real \<Rightarrow> nat \<Rightarrow> bool \<Rightarrow> error + real layer" where
  "demo_smearing start stop n trainable =
     (if n < 2 then Inl IndexError else Inr (demo_smearing_layer start stop n))"

definition demo_cutoff_layer :: "real \<Rightarrow> real layer" where
  "demo_cutoff_layer c r = Inr (Tensor (shape r) (map (\<lambda>v. if v < c then 1 else 0) (vals r)))"

definition demo_cutoff :: "real \<Rightarrow> error + real layer" where
  "demo_cutoff c = Inr (demo_cutoff_layer c)"

definition demo_cfconv_layer :: "nat \<Rightarrow> nat \<Rightarrow> real Dense list \<Rightarrow> real cfconv_layer" where
  "demo_cfconv_layer n_in n_out fnet x r_ij neighbors neighbor_mask f_ij =
     (if length (shape x) = 3 \<and> length (shape neighbors) = 3 then
        let B = shape x ! 0;
            A = shape x ! 1;
            K = shape neighbors ! 2
        in if shape x ! 2 = n_in \<and> shape neighbors = [B, A, K] \<and> shape r_ij = [B, A, K]
              \<and> shape neighbor_mask = [B, A, K]
              \<and> (case f_ij of None \<Rightarrow> map in_features (take 1 fnet) = [1]
                  | Some f \<Rightarrow> shape f = [B, A, K] @ map in_features (take 1 fnet)) then
             if list_ex (\<lambda>j. j < - int A \<or> int A \<le> j) (vals neighbors) then Inl IndexError
             else
               Inr (Tensor [B, A, n_out]
                      (concat (map (\<lambda>i. replicate n_out
                                           (foldl (+) 0 (map (\<lambda>k. vals neighbor_mask ! (i * K + k)
                                                                   * vals r_ij ! (i * K + k)) [0..<K])))
                                   [0..<B * A])))
           else Inl RuntimeError
      else Inl RuntimeError)"

definition demo_cfconv ::
  "pid \<Rightarrow> nat \<Rightarrow> nat \<Rightarrow> nat \<Rightarrow> real Dense list \<Rightarrow> real layer \<Rightarrow> (real \<Rightarrow> real) option \<Rightarrow> bool
     \<Rightarrow> error + real cfconv_layer" where
  "demo_cfconv p n_in n_filters n_out fnet cnet act nrm =
     (if n_in + n_filters = 0 \<or> n_filters + n_out = 0 then Inl ZeroDivisionError
      else Inr (demo_cfconv_layer n_in n_out fnet))"

definition demo_softplus :: "real \<Rightarrow> real" where
  "demo_softplus v = ln (exp v / 2 + 1 / 2)"

definition demo_nn :: "real nn" where
  "demo_nn = \<lparr>init_weight = (\<lambda>p r c. if r = c then 1 else 0),
              init_vector = (\<lambda>p i. real i + 1),
              shifted_softplus = demo_softplus,
              AtomDistances = demo_distances,
              GaussianSmearing = demo_smearing,
              CFConv = demo_cfconv\<rparr>"

definition demo_args :: "real SchNet_args" where
  "demo_args = \<lparr>arg_n_atom_basis = 4, arg_n_filters = Scalar 2, arg_n_interactions = 1,
                arg_cutoff = 5, arg_n_gaussians = 2, arg_normalize_filter = False,
                arg_coupled_interactions = False, arg_return_intermediate = False,
                arg_max_z = 10, arg_cutoff_network = demo_cutoff,
                arg_trainable_gaussians = False, arg_distance_expansion = None,
                arg_charged_systems = False, arg_use_noise = False, arg_noise_mean = 0,
                arg_noise_std = 1, arg_chargeEmbedding = True, arg_selectFet = None\<rparr>"

definition demo_dense :: "nat \<Rightarrow> nat \<Rightarrow> (real \<Rightarrow> real) option \<Rightarrow> real Dense" where
  "demo_dense n_in n_out act =
     \<lparr>in_features = n_in, out_features = n_out, weight = (\<lambda>r c. if r = c then 1 else 0),
      bias = Some (\<lambda>j. 0), activation = act\<rparr>"

definition demo_embedding :: "nat \<Rightarrow> nat \<Rightarrow> real Embedding" where
  "demo_embedding n d =
     \<lparr>num_embeddings = n, embedding_dim = d,
      table = (\<lambda>r c. if r = 0 then 0 else if r = c then 1 else 0)\<rparr>"

definition demo_block :: "nat \<Rightarrow> real SchNetInteraction" where
  "demo_block F =
     \<lparr>filter_network = [demo_dense 2 2 (Some demo_softplus), demo_dense 2 2 None],
      cutoff_network = demo_cutoff_layer 5,
      cfconv = demo_cfconv_layer F F [demo_dense 2 2 (Some demo_softplus), demo_dense 2 2 None],
      dense = demo_dense F F None\<rparr>"

definition demo_model :: "real SchNet" where
  "demo_model =
     \<lparr>chargeEmbedding = True, n_atom_basis = 4, selectFet = None,
      embedding = Some (demo_embedding 10 2),
      props_dense = demo_dense 8 2 None,
      distances = demo_distances,
      distance_expansion = demo_smearing_layer 0 5 2,
      interactions = [demo_block 4],
      use_noise = False, noise_mean = 0, noise_std = 1,
      return_intermediate = False, charged_systems = False, charge = None,
      newpos = torch_rand (\<lambda>i. real i + 1) [1, 600, 3]\<rparr>"

definition demo_Z :: "int tensor" where
  "demo_Z = Tensor [1, 600] (replicate 600 6)"

definition demo_R :: "real tensor" where
  "demo_R = Tensor [1, 600, 3] (map (\<lambda>i. if i mod 3 = 0 then real (i div 3) else 0) [0..<1800])"

definition demo_cell :: "real tensor" where
  "demo_cell = Tensor [1, 3, 3] (replicate 9 0)"

definition demo_cell_offset :: "real tensor" where
  "demo_cell_offset = Tensor [1, 600, 1, 3] (replicate 1800 0)"

definition demo_neighbors :: "int tensor" where
  "demo_neighbors = Tensor [1, 600, 1] (map (\<lambda>a. if a = 599 then 598 else int a + 1) [0..<600])"

definition demo_neighbor_mask :: "real tensor" where
  "demo_neighbor_mask = Tensor [1, 600, 1] (replicate 600 1)"

definition demo_atom_mask :: "real tensor" where
  "demo_atom_mask = Tensor [1, 600] (replicate 600 1)"

definition demo_props :: "real tensor" where
  "demo_props = Tensor [1, 600, 8] (replicate 4800 1)"

definition demo_inputs :: "real inputs" where
  "demo_inputs = \<lparr>Properties_Z = Some demo_Z,
                  Properties_R = Some demo_R,
                  Properties_cell = Some demo_cell,
                  Properties_cell_offset = Some demo_cell_offset,
                  Properties_neighbors = Some demo_neighbors,
                  Properties_neighbor_mask = Some demo_neighbor_mask,
                  Properties_atom_mask = Some demo_atom_mask,
                  Properties_charge = None,
                  props = Some demo_props\<rparr>"

text \<open>
  The same network with the odd feature width 3, with the charge feature, and with two
  blocks and recorded intermediates.
\<close>

definition demo_args3 :: "real SchNet_args" where
  "demo_args3 = demo_args\<lparr>arg_n_atom_basis := 3\<rparr>"

definition demo_model3 :: "real SchNet" where
  "demo_model3 =
     demo_model\<lparr>n_atom_basis := 3, embedding := Some (demo_embedding 10 1),
                props_dense := demo_dense 8 1 None, interactions := [demo_block 3]\<rparr>"

definition demo_args_c :: "real SchNet_args" where
  "demo_args_c = demo_args\<lparr>arg_charged_systems := True\<rparr>"

definition demo_model_c :: "real SchNet" where
  "demo_model_c = demo_model\<lparr>charged_systems := True, charge := Some (Tensor [1, 4] [1, 2, 3, 4])\<rparr>"

definition demo_inputs_c :: "real inputs" where
  "demo_inputs_c = demo_inputs\<lparr>Properties_charge := Some (Tensor [1, 1] [600])\<rparr>"

definition demo_args5 :: "real SchNet_args" where
  "demo_args5 = demo_args\<lparr>arg_return_intermediate := True, arg_n_interactions := 2\<rparr>"

definition demo_model5 :: "real SchNet" where
  "demo_model5 = demo_model\<lparr>return_intermediate := True,
                             interactions := [demo_block 4, demo_block 4]\<rparr>"

section \<open>Basic facts\<close>

lemma bnd_Inl [simp]: "bnd (Inl e) f = Inl e"
  by (simp add: bnd_def)

lemma bnd_Inr [simp]: "bnd (Inr v) f = f v"
  by (simp add: bnd_def)

lemma bnd_eq_Inr: "bnd r f = Inr y \<longleftrightarrow> (\<exists>v. r = Inr v \<and> f v = Inr y)"
  by (cases r) simp_all


lemma loop_trace:
  "interaction_loop bs True r nb nm f x xs0 = Inr (y, ys) \<Longrightarrow>
     \<exists>zs. ys = xs0 @ zs \<and> length zs = length bs \<and> last (x # zs) = y \<and>
          (\<forall>i<length bs. block_step (bs ! i) r nb nm f ((x # zs) ! i) = Inr (zs ! i))"
proof (induction bs arbitrary: x xs0)
  case Nil
  then show ?case by simp
next
  case (Cons b bs)
  from Cons.prems obtain v x' where
    v: "SchNetInteraction_forward b x r nb nm (Some f) = Inr v" and
    x': "tensor_add x v = Inr x'" and
    rest: "interaction_loop bs True r nb nm f x' (xs0 @ [x']) = Inr (y, ys)"
    by (auto simp: bnd_eq_Inr)
  from Cons.IH [OF rest] obtain zs where
    zs: "ys = (xs0 @ [x']) @ zs" "length zs = length bs" "last (x' # zs) = y"
        "\<forall>i<length bs. block_step (bs ! i) r nb nm f ((x' # zs) ! i) = Inr (zs ! i)"
    by blast
  have step: "block_step b r nb nm f x = Inr x'"
    using v x' by (simp add: block_step_def)
  have "\<forall>i<length (b # bs). block_step ((b # bs) ! i) r nb nm f ((x # x' # zs) ! i) = Inr ((x' # zs) ! i)"
  proof (intro allI impI)
    fix i assume "i < length (b # bs)"
    then show "block_step ((b # bs) ! i) r nb nm f ((x # x' # zs) ! i) = Inr ((x' # zs) ! i)"
      using step zs(4) by (cases i) auto
  qed
  with zs show ?case
    by (intro exI [of _ "x' # zs"]) simp
qed

lemma broadcast_rev_same: "broadcast_rev s s = Some s"
  by (induction s) simp_all

lemma broadcast_shapes_same: "broadcast_shapes s s = Some s"
  by (simp add: broadcast_shapes_def broadcast_rev_same)

lemma tensor_add_shape_same:
  "shape a = shape b \<Longrightarrow> tensor_add a b = Inr y \<Longrightarrow> shape y = shape a"
  by (auto simp: tensor_add_def tensor_binop_def broadcast_shapes_same)

lemma Dense_forward_shape:
  "Dense_forward L t = Inr y \<Longrightarrow>
     shape t \<noteq> [] \<and> last (shape t) = in_features L \<and> shape y = butlast (shape t) @ [out_features L]"
  by (auto simp: Dense_forward_def Let_def split: if_splits)

lemma Embedding_forward_shape:
  "Embedding_forward E z = Inr y \<Longrightarrow> shape y = shape z @ [embedding_dim E]"
  by (auto simp: Embedding_forward_def split: if_splits)

lemma cat_dim2_shape:
  "shape a = [B, A, m] \<Longrightarrow> shape b = [B, A, n] \<Longrightarrow> cat_dim2 a b = Inr y \<Longrightarrow> shape y = [B, A, m + n]"
  by (auto simp: cat_dim2_def Let_def split: if_splits)

lemma slice_dim2_shape:
  "slice_dim2 t a b = Inr y \<Longrightarrow>
     3 \<le> length (shape t) \<and> shape y = (shape t)[2 := slice_bound (shape t ! 2) b - slice_bound (shape t ! 2) a]"
  by (auto simp: slice_dim2_def Let_def split: if_splits)

lemma getitem_Inr: "getitem e = Inr v \<longleftrightarrow> e = Some v"
  by (cases e) (simp_all add: getitem_def)

lemma getattr_Inr: "getattr e = Inr v \<longleftrightarrow> e = Some v"
  by (cases e) (simp_all add: getattr_def)

lemma select_props_shape:
  assumes "props inputs = Some p" and "shape p = [B, A, P]"
    and "select_props self inputs = Inr prp"
  shows "\<exists>w. shape prp = [B, A, w]"
proof (cases "selectFet self")
  case None
  with assms show ?thesis by (simp add: select_props_def getitem_def)
next
  case (Some s)
  with assms obtain q where "slice_dim2 p s (s + 1) = Inr q" and "prp = q"
    by (auto simp: select_props_def getitem_def bnd_eq_Inr)
  with assms(2) show ?thesis
    by (auto dest!: slice_dim2_shape)
qed

lemma select_props_None:
  "selectFet self = None \<Longrightarrow> select_props self inputs = getitem (props inputs)"
  by (simp add: select_props_def)

text \<open>What the constructor stores.\<close>

lemma Dense_init_Inr:
  "Dense_init w n_in n_out ub act = Inr L \<Longrightarrow>
     in_features L = n_in \<and> out_features L = n_out \<and> 0 < n_in + n_out"
  by (auto simp: Dense_init_def split: if_splits)

lemma Embedding_init_Inr:
  "Embedding_init w n d = Inr E \<Longrightarrow> num_embeddings E = n \<and> embedding_dim E = d \<and> 0 < n"
  by (auto simp: Embedding_init_def split: if_splits)

lemma SchNet_init_fields:
  assumes "SchNet_init nn a = Inr self"
  shows "init_features nn a = Inr (embedding self, props_dense self)"
    and "init_interactions nn a = Inr (interactions self)"
    and "chargeEmbedding self = arg_chargeEmbedding a"
    and "selectFet self = arg_selectFet a"
    and "return_intermediate self = arg_return_intermediate a"
    and "n_atom_basis self = arg_n_atom_basis a"
    and "newpos self = torch_rand (init_vector nn P_newpos) [1, 600, 3]"
    and "distances self = AtomDistances nn"
  using assms
  by (auto simp: SchNet_init_def bnd_eq_Inr Let_def split: if_splits prod.splits)

lemma init_features_dense:
  assumes "init_features nn a = Inr (emb, dns)"
  shows "in_features dns = (if arg_selectFet a = None then 8 else 1)"
    and "out_features dns = (if arg_chargeEmbedding a then arg_n_atom_basis a div 2 else arg_n_atom_basis a)"
    and "arg_chargeEmbedding a \<Longrightarrow> \<exists>e. emb = Some e \<and> embedding_dim e = arg_n_atom_basis a div 2"
  using assms
  by (auto simp: init_features_def Let_def bnd_eq_Inr dest!: Dense_init_Inr Embedding_init_Inr
      split: if_splits)

lemma SchNetInteraction_init_dense:
  assumes "SchNetInteraction_init nn k F G f c cls nf = Inr b"
  shows "in_features (dense b) = F \<and> out_features (dense b) = F"
  using assms
  by (auto simp: SchNetInteraction_init_def bnd_eq_Inr dest!: Dense_init_Inr)

lemma construct_all_Inr:
  "construct_all mk ks = Inr bs \<Longrightarrow>
     length bs = length ks \<and> (\<forall>i<length ks. mk (ks ! i) = Inr (bs ! i))"
proof (induction ks arbitrary: bs)
  case Nil
  then show ?case by simp
next
  case (Cons k ks)
  from Cons.prems obtain b bs' where
    b: "mk k = Inr b" and bs': "construct_all mk ks = Inr bs'" and bs: "bs = b # bs'"
    by (auto simp: bnd_eq_Inr)
  from Cons.IH [OF bs'] have
    "length bs' = length ks" "\<forall>i<length ks. mk (ks ! i) = Inr (bs' ! i)"
    by simp_all
  with b bs show ?case
    by (auto simp: nth_Cons split: nat.splits)
qed

lemma init_interactions_blocks:
  assumes "init_interactions nn a = Inr bs"
  shows "length bs = nat (arg_n_interactions a)"
    and "\<forall>b\<in>set bs. in_features (dense b) = arg_n_atom_basis a \<and> out_features (dense b) = arg_n_atom_basis a"
proof -
  let ?n = "nat (arg_n_interactions a)"
  let ?mk = "\<lambda>k f. SchNetInteraction_init nn k (arg_n_atom_basis a) (arg_n_gaussians a) f
                      (arg_cutoff a) (arg_cutoff_network a) (arg_normalize_filter a)"
  have "length bs = ?n \<and> (\<forall>i<length bs. \<exists>k f. ?mk k f = Inr (bs ! i))"
  proof (cases "arg_n_filters a")
    case (PerBlock fs)
    with assms have
      "construct_all (\<lambda>i. if i < length fs then ?mk i (fs ! i) else Inl IndexError) [0..<?n] = Inr bs"
      by (simp add: init_interactions_def)
    from construct_all_Inr [OF this] show ?thesis
      by (auto split: if_splits)
  next
    case (Scalar f)
    show ?thesis
    proof (cases "arg_coupled_interactions a")
      case True
      with Scalar assms obtain b where "?mk 0 f = Inr b" "bs = replicate ?n b"
        by (auto simp: init_interactions_def bnd_eq_Inr)
      then show ?thesis by auto
    next
      case False
      with Scalar assms have "construct_all (\<lambda>i. ?mk i f) [0..<?n] = Inr bs"
        by (simp add: init_interactions_def)
      from construct_all_Inr [OF this] show ?thesis by auto
    qed
  qed
  then have len: "length bs = ?n" and mk: "\<forall>i<length bs. \<exists>k f. ?mk k f = Inr (bs ! i)"
    by simp_all
  show "length bs = ?n" by (rule len)
  show "\<forall>b\<in>set bs. in_features (dense b) = arg_n_atom_basis a \<and> out_features (dense b) = arg_n_atom_basis a"
  proof
    fix b assume "b \<in> set bs"
    then obtain i where "i < length bs" "b = bs ! i" by (auto simp: in_set_conv_nth)
    with mk obtain k f where "?mk k f = Inr b" by blast
    then show "in_features (dense b) = arg_n_atom_basis a \<and> out_features (dense b) = arg_n_atom_basis a"
      by (rule SchNetInteraction_init_dense)
  qed
qed

lemma initial_x_shape:
  assumes feat: "init_features nn a = Inr (embedding self, props_dense self)"
    and ce: "chargeEmbedding self = arg_chargeEmbedding a"
    and par: "\<not> arg_chargeEmbedding a \<or> even (arg_n_atom_basis a)"
    and z: "shape z = [B, A]"
    and p: "shape prp = [B, A, w]"
    and x: "initial_x self z prp = Inr x"
  shows "shape x = [B, A, arg_n_atom_basis a]"
proof (cases "arg_chargeEmbedding a")
  case False
  with x ce have "Dense_forward (props_dense self) prp = Inr x"
    by (simp add: initial_x_def)
  from Dense_forward_shape [OF this] init_features_dense(2) [OF feat] False p
  show ?thesis by simp
next
  case True
  with par have ev: "even (arg_n_atom_basis a)" by simp
  from init_features_dense(3) [OF feat True] obtain e where
    e: "embedding self = Some e" "embedding_dim e = arg_n_atom_basis a div 2" by blast
  from x ce True e obtain q y where
    q: "Dense_forward (props_dense self) prp = Inr q" and
    y: "Embedding_forward e z = Inr y" and
    c: "cat_dim2 q y = Inr x"
    by (auto simp: initial_x_def bnd_eq_Inr getattr_def)
  have sq: "shape q = [B, A, arg_n_atom_basis a div 2]"
    using Dense_forward_shape [OF q] init_features_dense(2) [OF feat] True p by simp
  have sy: "shape y = [B, A, arg_n_atom_basis a div 2]"
    using Embedding_forward_shape [OF y] e z by simp
  from cat_dim2_shape [OF sq sy c] ev show ?thesis
    by (simp add: mult_2 [symmetric])
qed

lemma loop_shape:
  assumes "\<forall>b\<in>set bs. in_features (dense b) = F \<and> out_features (dense b) = F"
    and "\<forall>b\<in>set bs. \<forall>x r nb nm f v. cfconv b x r nb nm f = Inr v
           \<longrightarrow> shape v = butlast (shape x) @ [F]"
    and "shape x = [B, A, F]"
    and "\<forall>t\<in>set xs. shape t = [B, A, F]"
    and "interaction_loop bs ri r nb nm f x xs = Inr (y, ys)"
  shows "shape y = [B, A, F] \<and> (\<forall>t\<in>set ys. shape t = [B, A, F])"
  using assms
proof (induction bs arbitrary: x xs)
  case Nil
  then show ?case by simp
next
  case (Cons b bs)
  from Cons.prems(5) obtain c v x' where
    c: "cfconv b x r nb nm (Some f) = Inr c" and
    v: "Dense_forward (dense b) c = Inr v" and
    x': "tensor_add x v = Inr x'" and
    rest: "interaction_loop bs ri r nb nm f x' (if ri then xs @ [x'] else xs) = Inr (y, ys)"
    by (auto simp: bnd_eq_Inr SchNetInteraction_forward_def)
  have sc: "shape c = [B, A, F]"
    using Cons.prems(2) c Cons.prems(3) by simp
  have sv: "shape v = [B, A, F]"
    using Dense_forward_shape [OF v] Cons.prems(1) sc by simp
  have sx': "shape x' = [B, A, F]"
    using tensor_add_shape_same [OF _ x'] Cons.prems(3) sv by simp
  show ?case
  proof (rule Cons.IH [OF _ _ sx' _ rest])
    show "\<forall>b\<in>set bs. in_features (dense b) = F \<and> out_features (dense b) = F"
      using Cons.prems(1) by simp
    show "\<forall>b\<in>set bs. \<forall>x r nb nm f v. cfconv b x r nb nm f = Inr v
           \<longrightarrow> shape v = butlast (shape x) @ [F]"
      using Cons.prems(2) by simp
    show "\<forall>t\<in>set (if ri then xs @ [x'] else xs). shape t = [B, A, F]"
      using Cons.prems(4) sx' by simp
  qed
qed

lemma forward_setup_Inr:
  assumes "forward_setup self rnd inputs = Inr (x, r_ij, nb, nm, f_ij)"
  shows "\<exists>z cell off am p li prp.
           Properties_Z inputs = Some z \<and> Properties_cell inputs = Some cell
         \<and> Properties_cell_offset inputs = Some off \<and> Properties_neighbors inputs = Some nb
         \<and> Properties_neighbor_mask inputs = Some nm \<and> Properties_atom_mask inputs = Some am
         \<and> props inputs = Some p \<and> slice_dim2 p 7 8 = Inr li
         \<and> select_props self inputs = Inr prp \<and> initial_x self z prp = Inr x
         \<and> distances self (newpos self) nb cell off nm = Inr r_ij
         \<and> distance_expansion self r_ij = Inr f_ij"
  using assms
  by (auto simp: forward_setup_def bnd_eq_Inr getitem_Inr Let_def)

lemma SchNet_forward_Inr:
  assumes "SchNet_forward self rnd inputs = Inr (x, r)"
  shows "\<exists>x0 r_ij nb nm f_ij xs.
           forward_setup self rnd inputs = Inr (x0, r_ij, nb, nm, f_ij)
         \<and> interaction_loop (interactions self) (return_intermediate self) r_ij nb nm f_ij x0 [x0]
             = Inr (x, xs)
         \<and> r = (if return_intermediate self then Some xs else None)"
proof -
  from assms obtain s where s: "forward_setup self rnd inputs = Inr s"
    by (cases "forward_setup self rnd inputs") (simp_all add: SchNet_forward_def)
  obtain x0 r_ij nb nm f_ij where t: "s = (x0, r_ij, nb, nm, f_ij)"
    by (cases s) auto
  from assms s t obtain q where
    q: "interaction_loop (interactions self) (return_intermediate self) r_ij nb nm f_ij x0 [x0] = Inr q"
    by (cases "interaction_loop (interactions self) (return_intermediate self) r_ij nb nm f_ij x0 [x0]")
       (simp_all add: SchNet_forward_def)
  obtain y ys where u: "q = (y, ys)" by (cases q) auto
  from assms s t q u have "y = x" and "r = (if return_intermediate self then Some ys else None)"
    by (simp_all add: SchNet_forward_def)
  with s t q u show ?thesis by blast
qed






lemma forward_setup_ignores_charge:
  "forward_setup (self\<lparr>charged_systems := c, charge := q\<rparr>) rnd (inputs\<lparr>Properties_charge := ch\<rparr>)
     = forward_setup self rnd inputs"
  by (simp add: forward_setup_def select_props_def initial_x_def Let_def
      cong: option.case_cong if_cong)

lemma forward_setup_ignores_loop:
  "forward_setup (self\<lparr>return_intermediate := ri, interactions := bs\<rparr>) rnd inputs
     = forward_setup self rnd inputs"
  by (simp add: forward_setup_def select_props_def initial_x_def Let_def
      cong: option.case_cong if_cong)

text \<open>
  The shape of the features where the width is even or the initialization is not
  combined: when the convolution layers keep the shape of the features they are given
  and \<^verbatim>\<open>forward\<close> returns, \<open>x\<close> and every intermediate have shape \<open>(B, A, F)\<close>.
\<close>

lemma forward_shape_regular:
  assumes init: "SchNet_init nn a = Inr self"
    and par: "\<not> arg_chargeEmbedding a \<or> even (arg_n_atom_basis a)"
    and cf: "\<forall>b\<in>set (interactions self). \<forall>x r nb nm f v. cfconv b x r nb nm f = Inr v
               \<longrightarrow> shape v = butlast (shape x) @ [arg_n_atom_basis a]"
    and z: "Properties_Z inputs = Some z" "shape z = [B, A]"
    and p: "props inputs = Some p" "shape p = [B, A, P]"
    and fw: "SchNet_forward self rnd inputs = Inr (x, r)"
  shows "shape x = [B, A, arg_n_atom_basis a]
       \<and> (\<forall>xs. r = Some xs \<longrightarrow> (\<forall>t\<in>set xs. shape t = [B, A, arg_n_atom_basis a]))"
proof -
  from SchNet_forward_Inr [OF fw] obtain x0 r_ij nb nm f_ij xs where
    stp: "forward_setup self rnd inputs = Inr (x0, r_ij, nb, nm, f_ij)" and
    loop: "interaction_loop (interactions self) (return_intermediate self) r_ij nb nm f_ij x0 [x0]
             = Inr (x, xs)" and
    r: "r = (if return_intermediate self then Some xs else None)"
    by blast
  from forward_setup_Inr [OF stp] z(1) obtain prp where
    sel: "select_props self inputs = Inr prp" and x0: "initial_x self z prp = Inr x0"
    by auto
  from select_props_shape [OF p sel] obtain w where w: "shape prp = [B, A, w]" by blast
  have s0: "shape x0 = [B, A, arg_n_atom_basis a]"
    by (rule initial_x_shape [OF SchNet_init_fields(1) [OF init] SchNet_init_fields(3) [OF init]
          par z(2) w x0])
  have "shape x = [B, A, arg_n_atom_basis a] \<and> (\<forall>t\<in>set xs. shape t = [B, A, arg_n_atom_basis a])"
  proof (rule loop_shape [OF _ cf s0 _ loop])
    show "\<forall>b\<in>set (interactions self).
            in_features (dense b) = arg_n_atom_basis a \<and> out_features (dense b) = arg_n_atom_basis a"
      by (rule init_interactions_blocks(2) [OF SchNet_init_fields(2) [OF init]])
    show "\<forall>t\<in>set [x0]. shape t = [B, A, arg_n_atom_basis a]"
      using s0 by simp
  qed
  with r show ?thesis by (auto split: if_splits)
qed

text \<open>
  Combined initialization with an odd width: the initial features are \<open>F - 1\<close> wide, and
  adding a block's output of width \<open>F\<close> raises unless \<open>F = 1\<close>.
\<close>

lemma broadcast_rev_hd:
  "broadcast_rev (x # xs) (y # ys) = Some s \<Longrightarrow>
     (x = y \<or> y = 1 \<or> x = 1) \<and> s \<noteq> [] \<and> hd s = (if x = y \<or> y = 1 then x else y)"
  by (auto split: if_splits)

lemma tensor_add_last:
  assumes "tensor_add a b = Inr y" and "shape a \<noteq> []" and "shape b \<noteq> []"
  shows "shape y \<noteq> []
       \<and> last (shape y) = (if last (shape a) = last (shape b) \<or> last (shape b) = 1
                            then last (shape a) else last (shape b))
       \<and> (last (shape a) = last (shape b) \<or> last (shape b) = 1 \<or> last (shape a) = 1)"
proof -
  from assms(1) obtain s where
    s: "broadcast_rev (rev (shape a)) (rev (shape b)) = Some s" and y: "shape y = rev s"
    by (auto simp: tensor_add_def tensor_binop_def broadcast_shapes_def split: option.splits)
  have ra: "rev (shape a) = last (shape a) # rev (butlast (shape a))"
    using assms(2) by (cases "shape a" rule: rev_cases) simp_all
  have rb: "rev (shape b) = last (shape b) # rev (butlast (shape b))"
    using assms(3) by (cases "shape b" rule: rev_cases) simp_all
  from broadcast_rev_hd [OF s [unfolded ra rb]] y show ?thesis
    by (simp add: last_rev)
qed

lemma initial_x_shape_combined:
  assumes feat: "init_features nn a = Inr (embedding self, props_dense self)"
    and ce: "chargeEmbedding self = arg_chargeEmbedding a"
    and comb: "arg_chargeEmbedding a"
    and z: "shape z = [B, A]"
    and p: "shape prp = [B, A, w]"
    and x: "initial_x self z prp = Inr x"
  shows "shape x = [B, A, 2 * (arg_n_atom_basis a div 2)]"
proof -
  from init_features_dense(3) [OF feat comb] obtain e where
    e: "embedding self = Some e" "embedding_dim e = arg_n_atom_basis a div 2" by blast
  from x ce comb e obtain q y where
    q: "Dense_forward (props_dense self) prp = Inr q" and
    y: "Embedding_forward e z = Inr y" and
    c: "cat_dim2 q y = Inr x"
    by (auto simp: initial_x_def bnd_eq_Inr getattr_def)
  have sq: "shape q = [B, A, arg_n_atom_basis a div 2]"
    using Dense_forward_shape [OF q] init_features_dense(2) [OF feat] comb p by simp
  have sy: "shape y = [B, A, arg_n_atom_basis a div 2]"
    using Embedding_forward_shape [OF y] e z by simp
  from cat_dim2_shape [OF sq sy c] show ?thesis
    by (simp add: mult_2)
qed

lemma loop_last_odd:
  assumes "\<forall>b\<in>set bs. out_features (dense b) = F"
    and "odd F"
    and "shape x \<noteq> []"
    and "last (shape x) = F - 1"
    and "interaction_loop bs ri r nb nm f x xs = Inr (y, ys)"
  shows "shape y \<noteq> [] \<and> last (shape y) = F - 1 \<and> (bs \<noteq> [] \<longrightarrow> F = 1)"
  using assms
proof (induction bs arbitrary: x xs)
  case Nil
  then show ?case by simp
next
  case (Cons b bs)
  from Cons.prems(5) obtain c v x' where
    c: "cfconv b x r nb nm (Some f) = Inr c" and
    v: "Dense_forward (dense b) c = Inr v" and
    x': "tensor_add x v = Inr x'" and
    rest: "interaction_loop bs ri r nb nm f x' (if ri then xs @ [x'] else xs) = Inr (y, ys)"
    by (auto simp: bnd_eq_Inr SchNetInteraction_forward_def)
  have sv: "shape v \<noteq> []" "last (shape v) = F"
    using Dense_forward_shape [OF v] Cons.prems(1) by simp_all
  from tensor_add_last [OF x' Cons.prems(3) sv(1)] sv(2) Cons.prems(4)
  have sx1: "shape x' \<noteq> []"
    and lx: "last (shape x') = (if F - 1 = F \<or> F = 1 then F - 1 else F)"
    and compat: "F - 1 = F \<or> F = 1 \<or> F - 1 = 1"
    by simp_all
  from compat Cons.prems(2) have F1: "F = 1" by presburger
  with lx sx1 have sx': "shape x' \<noteq> []" "last (shape x') = F - 1" by simp_all
  have "shape y \<noteq> [] \<and> last (shape y) = F - 1 \<and> (bs \<noteq> [] \<longrightarrow> F = 1)"
  proof (rule Cons.IH [OF _ Cons.prems(2) sx' rest])
    show "\<forall>b\<in>set bs. out_features (dense b) = F"
      using Cons.prems(1) by simp
  qed
  with F1 show ?case by simp
qed

lemma forward_odd_width:
  assumes init: "SchNet_init nn a = Inr self"
    and comb: "arg_chargeEmbedding a"
    and odd: "odd (arg_n_atom_basis a)"
    and z: "Properties_Z inputs = Some z" "shape z = [B, A]"
    and p: "props inputs = Some p" "shape p = [B, A, P]"
    and fw: "SchNet_forward self rnd inputs = Inr (x, r)"
  shows "shape x \<noteq> [] \<and> last (shape x) = arg_n_atom_basis a - 1
       \<and> (1 \<le> arg_n_interactions a \<longrightarrow> arg_n_atom_basis a = 1)"
proof -
  from SchNet_forward_Inr [OF fw] obtain x0 r_ij nb nm f_ij xs where
    stp: "forward_setup self rnd inputs = Inr (x0, r_ij, nb, nm, f_ij)" and
    loop: "interaction_loop (interactions self) (return_intermediate self) r_ij nb nm f_ij x0 [x0]
             = Inr (x, xs)"
    by blast
  from forward_setup_Inr [OF stp] z(1) obtain prp where
    sel: "select_props self inputs = Inr prp" and x0: "initial_x self z prp = Inr x0"
    by auto
  from select_props_shape [OF p sel] obtain w where w: "shape prp = [B, A, w]" by blast
  have "shape x0 = [B, A, 2 * (arg_n_atom_basis a div 2)]"
    by (rule initial_x_shape_combined [OF SchNet_init_fields(1) [OF init]
          SchNet_init_fields(3) [OF init] comb z(2) w x0])
  moreover have "2 * (arg_n_atom_basis a div 2) = arg_n_atom_basis a - 1"
    using odd by presburger
  ultimately have s0: "shape x0 \<noteq> []" "last (shape x0) = arg_n_atom_basis a - 1"
    by simp_all
  have blocks: "\<forall>b\<in>set (interactions self). out_features (dense b) = arg_n_atom_basis a"
    using init_interactions_blocks(2) [OF SchNet_init_fields(2) [OF init]] by simp
  have len: "length (interactions self) = nat (arg_n_interactions a)"
    by (rule init_interactions_blocks(1) [OF SchNet_init_fields(2) [OF init]])
  from loop_last_odd [OF blocks odd s0 loop] len show ?thesis
    by auto
qed

section \<open>First elements and results of the tensor operations\<close>

lemma length_indices: "length (indices s) = prod_list s"
proof (induction s)
  case Nil
  show ?case by simp
next
  case (Cons n ns)
  have "length (concat (map (\<lambda>i. map ((#) i) (indices ns)) [0..<n])) = n * prod_list ns"
    by (simp add: length_concat Cons.IH comp_def sum_list_triv)
  then show ?case by simp
qed

lemma indices_first:
  "0 \<notin> set s \<Longrightarrow> \<exists>rest. indices s = replicate (length s) 0 # rest"
proof (induction s)
  case Nil
  show ?case by simp
next
  case (Cons n ns)
  then obtain rest where rest: "indices ns = replicate (length ns) 0 # rest" by auto
  from Cons.prems have "0 < n" by simp
  then have "[0..<n] = 0 # [Suc 0..<n]" by (simp add: upt_rec)
  with rest show ?case by simp
qed

lemma offset_zeros: "offset s (replicate n 0) = 0"
proof (induction s arbitrary: n)
  case Nil
  show ?case by simp
next
  case (Cons a s)
  show ?case by (cases n) (simp_all add: Cons.IH)
qed

lemma bidx_zeros: "length s \<le> n \<Longrightarrow> bidx s (replicate n 0) = replicate (length s) 0"
  by (auto simp: bidx_def map_replicate_const zip_replicate2 intro!: nth_equalityI)

lemma broadcast_rev_length:
  "broadcast_rev xs ys = Some s \<Longrightarrow> length s = max (length xs) (length ys)"
  by (induction xs ys arbitrary: s rule: broadcast_rev.induct) (auto split: if_splits)

lemma tensor_binop_first:
  assumes "tensor_binop f a b = Inr y" and "0 \<notin> set (shape y)"
  shows "vals y \<noteq> [] \<and> vals y ! 0 = f (vals a ! 0) (vals b ! 0)"
proof -
  from assms(1) obtain s where
    s: "broadcast_shapes (shape a) (shape b) = Some s" and
    y: "y = Tensor s (map (\<lambda>idx. f (elem_at a (bidx (shape a) idx)) (elem_at b (bidx (shape b) idx)))
                        (indices s))"
    by (auto simp: tensor_binop_def split: option.splits)
  from s have len: "length (shape a) \<le> length s" "length (shape b) \<le> length s"
    by (auto simp: broadcast_shapes_def dest!: broadcast_rev_length)
  from assms(2) y have "0 \<notin> set s" by simp
  from indices_first [OF this] obtain rest where "indices s = replicate (length s) 0 # rest" ..
  with y len show ?thesis
    by (simp add: elem_at_def bidx_zeros offset_zeros)
qed

lemma tensor_add_ok:
  "shape a = shape b \<Longrightarrow> \<exists>y. tensor_add a b = Inr y \<and> shape y = shape a"
  by (simp add: tensor_add_def tensor_binop_def broadcast_shapes_same)

lemma Dense_forward_ok:
  "shape t \<noteq> [] \<Longrightarrow> last (shape t) = in_features L \<Longrightarrow>
     \<exists>y. Dense_forward L t = Inr y \<and> shape y = butlast (shape t) @ [out_features L]"
  by (simp add: Dense_forward_def Let_def)

lemma Embedding_forward_ok:
  "\<forall>i\<in>set (vals z). 0 \<le> i \<and> i < int (num_embeddings E) \<Longrightarrow>
     \<exists>y. Embedding_forward E z = Inr y \<and> shape y = shape z @ [embedding_dim E]"
  by (auto simp: Embedding_forward_def list_ex_iff)

lemma cat_dim2_ok:
  "shape a = [B, A, m] \<Longrightarrow> shape b = [B, A, n] \<Longrightarrow>
     \<exists>y. cat_dim2 a b = Inr y \<and> shape y = [B, A, m + n]
         \<and> length (vals y) = B * (A * (m + n))"
  by (simp add: cat_dim2_def Let_def length_indices del: indices.simps)

lemma slice_dim2_ok: "3 \<le> length (shape t) \<Longrightarrow> \<exists>y. slice_dim2 t a b = Inr y"
  by (simp add: slice_dim2_def Let_def)

lemma foldl_plus_const:
  "(\<And>k. k < n \<Longrightarrow> f k = c) \<Longrightarrow> foldl (+) a (map f [0..<n]) = a + real n * c"
  by (induction n arbitrary: a) (simp_all add: algebra_simps)

section \<open>Running the concrete network\<close>

lemma upt_0_numeral: "[0..<numeral n] = 0 # [Suc 0..<numeral n]"
  by (simp add: upt_rec)

lemma upt_Suc_numeral:
  "[Suc m..<numeral n] = (if Suc m < numeral n then Suc m # [Suc (Suc m)..<numeral n] else [])"
  by (simp add: upt_rec)

lemmas small_upt = upt_0_numeral upt_Suc_numeral

lemma shape_torch_rand: "shape (torch_rand rnd s) = s"
  by (simp add: torch_rand_def)

lemma vals_torch_rand_nth: "i < prod_list s \<Longrightarrow> vals (torch_rand rnd s) ! i = rnd i"
  by (simp add: torch_rand_def)

lemma demo_nn_layers:
  "AtomDistances demo_nn = demo_distances"
  "GaussianSmearing demo_nn = demo_smearing"
  "CFConv demo_nn = demo_cfconv"
  "shifted_softplus demo_nn = demo_softplus"
  "init_vector demo_nn p = (\<lambda>i. real i + 1)"
  by (simp_all add: demo_nn_def)

lemma demo_dense_init:
  "0 < n_in + n_out \<Longrightarrow>
     Dense_init (init_weight demo_nn p) n_in n_out True act = Inr (demo_dense n_in n_out act)"
  by (simp add: Dense_init_def demo_dense_def demo_nn_def)

lemma demo_embedding_init:
  "0 < n \<Longrightarrow> Embedding_init (init_weight demo_nn p) n d = Inr (demo_embedding n d)"
  by (simp add: Embedding_init_def demo_embedding_def demo_nn_def)

lemma demo_block_init:
  "0 < F \<Longrightarrow> SchNetInteraction_init demo_nn k F 2 2 5 demo_cutoff False = Inr (demo_block F)"
  by (simp add: SchNetInteraction_init_def demo_nn_layers demo_dense_init demo_cutoff_def
      demo_cfconv_def demo_block_def)

lemma demo_init: "SchNet_init demo_nn demo_args = Inr demo_model"
  by (simp add: SchNet_init_def init_features_def init_interactions_def demo_embedding_init
      demo_dense_init demo_block_init demo_nn_layers demo_smearing_def demo_args_def
      demo_model_def)

lemma demo_distances_ok:
  assumes "shape positions = [1, 600, 3]"
  shows "\<exists>r. demo_distances positions demo_neighbors demo_cell demo_cell_offset demo_neighbor_mask
               = Inr r
           \<and> shape r = [1, 600, 1]
           \<and> vals r ! 0 = sqrt ((vals positions ! 3 - vals positions ! 0)\<^sup>2
                               + (vals positions ! 4 - vals positions ! 1)\<^sup>2
                               + (vals positions ! 5 - vals positions ! 2)\<^sup>2)"
proof -
  obtain rest where first: "indices [Suc 0, 600, Suc 0] = [0, 0, 0] # rest"
    using indices_first [of "[Suc 0, 600, Suc 0]"] by (auto simp: numeral_3_eq_3)
  have nb: "\<not> list_ex (\<lambda>j. j < - 600 \<or> 600 \<le> j) (vals demo_neighbors)"
    by (auto simp: demo_neighbors_def list_ex_iff)
  show ?thesis
    using assms nb
    by (simp add: demo_distances_def Let_def first elem_at_def demo_neighbors_def demo_cell_def
        demo_cell_offset_def demo_neighbor_mask_def numeral_2_eq_2 [symmetric]
        del: indices.simps)
qed

lemmas demo_init_simps = SchNet_init_def init_features_def init_interactions_def
  demo_embedding_init demo_dense_init demo_block_init demo_nn_layers demo_smearing_def
  demo_args_def demo_model_def

lemma demo3_init: "SchNet_init demo_nn demo_args3 = Inr demo_model3"
  by (simp add: demo_init_simps demo_args3_def demo_model3_def)

lemma demo3_init0:
  "SchNet_init demo_nn (demo_args3\<lparr>arg_n_interactions := 0\<rparr>) = Inr (demo_model3\<lparr>interactions := []\<rparr>)"
  by (simp add: demo_init_simps demo_args3_def demo_model3_def)

lemma demo_c_init: "SchNet_init demo_nn demo_args_c = Inr demo_model_c"
  by (simp add: demo_init_simps demo_args_c_def demo_model_c_def small_upt)

lemma demo5_init: "SchNet_init demo_nn demo_args5 = Inr demo_model5"
  by (simp add: demo_init_simps demo_args5_def demo_model5_def small_upt)

lemma demo_smearing_layer_ok:
  "\<exists>f. demo_smearing_layer start stop n r = Inr f \<and> shape f = shape r @ [n]"
  by (simp add: demo_smearing_layer_def)

lemma demo_cfconv_layer_ok:
  assumes "shape x = [1, 600, n_in]" and "shape r = [1, 600, 1]" and "shape f = [1, 600, 1, 2]"
  shows "\<exists>v. demo_cfconv_layer n_in n_out [demo_dense 2 2 act1, demo_dense 2 2 act2] x r
               demo_neighbors demo_neighbor_mask (Some f) = Inr v
           \<and> shape v = [1, 600, n_out]"
proof -
  have nb: "\<not> list_ex (\<lambda>j. j < - 600 \<or> 600 \<le> j) (vals demo_neighbors)"
    by (auto simp: demo_neighbors_def list_ex_iff)
  have shapes: "shape demo_neighbors = [1, 600, 1]" "shape demo_neighbor_mask = [1, 600, 1]"
    by (simp_all add: demo_neighbors_def demo_neighbor_mask_def)
  show ?thesis
    using assms nb shapes
    by (simp add: demo_cfconv_layer_def Let_def demo_dense_def)
qed

lemma demo_block_step_ok:
  assumes "shape x = [1, 600, F]" and "shape r = [1, 600, 1]" and "shape f = [1, 600, 1, 2]"
  shows "\<exists>x'. block_step (demo_block F) r demo_neighbors demo_neighbor_mask f x = Inr x'
            \<and> shape x' = [1, 600, F]"
proof -
  from demo_cfconv_layer_ok [OF assms] obtain v where
    v: "demo_cfconv_layer F F [demo_dense 2 2 (Some demo_softplus), demo_dense 2 2 None] x r
          demo_neighbors demo_neighbor_mask (Some f) = Inr v" and sv: "shape v = [1, 600, F]"
    by blast
  have "shape v \<noteq> []" "last (shape v) = in_features (demo_dense F F None)"
    using sv by (simp_all add: demo_dense_def)
  from Dense_forward_ok [OF this] obtain w where
    w: "Dense_forward (demo_dense F F None) v = Inr w" and sw: "shape w = [1, 600, F]"
    using sv by (auto simp: demo_dense_def)
  from tensor_add_ok [of x w] assms(1) sw obtain x' where
    "tensor_add x w = Inr x'" "shape x' = [1, 600, F]"
    by auto
  with v w show ?thesis
    by (simp add: block_step_def SchNetInteraction_forward_def demo_block_def)
qed

lemma interaction_loop_step:
  "interaction_loop (b # bs) ri r nb nm f x xs =
     bnd (block_step b r nb nm f x)
         (\<lambda>x'. interaction_loop bs ri r nb nm f x' (if ri then xs @ [x'] else xs))"
  by (simp add: block_step_def bnd_def split: sum.splits)

lemma demo_initial_x_ok:
  assumes "chargeEmbedding self" and "props_dense self = demo_dense 8 h None"
    and "embedding self = Some (demo_embedding 10 h)"
  shows "\<exists>x. initial_x self demo_Z demo_props = Inr x \<and> shape x = [1, 600, h + h]
           \<and> length (vals x) = 600 * (h + h)"
proof -
  have "shape demo_props \<noteq> []" "last (shape demo_props) = in_features (demo_dense 8 h None)"
    by (simp_all add: demo_props_def demo_dense_def)
  from Dense_forward_ok [OF this] obtain q where
    q: "Dense_forward (demo_dense 8 h None) demo_props = Inr q" and sq: "shape q = [1, 600, h]"
    by (auto simp: demo_props_def demo_dense_def)
  have "\<forall>i\<in>set (vals demo_Z). 0 \<le> i \<and> i < int (num_embeddings (demo_embedding 10 h))"
    by (simp add: demo_Z_def demo_embedding_def)
  from Embedding_forward_ok [OF this] obtain e where
    e: "Embedding_forward (demo_embedding 10 h) demo_Z = Inr e" and se: "shape e = [1, 600, h]"
    by (auto simp: demo_Z_def demo_embedding_def)
  from cat_dim2_ok [OF sq se] obtain x where
    "cat_dim2 q e = Inr x" "shape x = [1, 600, h + h]" "length (vals x) = 1 * (600 * (h + h))"
    by blast
  with q e assms show ?thesis
    by (simp add: initial_x_def getattr_def)
qed

lemma demo_setup_ok:
  assumes "chargeEmbedding self" and "props_dense self = demo_dense 8 h None"
    and "embedding self = Some (demo_embedding 10 h)"
    and "selectFet self = None"
    and "distances self = demo_distances"
    and "distance_expansion self = demo_smearing_layer 0 5 2"
    and "newpos self = torch_rand (\<lambda>i. real i + 1) [1, 600, 3]"
  shows "\<exists>x r f. forward_setup self rnd demo_inputs
                   = Inr (x, r, demo_neighbors, demo_neighbor_mask, f)
           \<and> shape x = [1, 600, h + h] \<and> length (vals x) = 600 * (h + h)
           \<and> shape r = [1, 600, 1] \<and> vals r ! 0 = sqrt 27
           \<and> shape f = [1, 600, 1, 2]"
proof -
  from demo_initial_x_ok [OF assms(1-3)] obtain x where
    x: "initial_x self demo_Z demo_props = Inr x" "shape x = [1, 600, h + h]"
       "length (vals x) = 600 * (h + h)"
    by blast
  from slice_dim2_ok [of demo_props 7 8] obtain li where li: "slice_dim2 demo_props 7 8 = Inr li"
    by (auto simp: demo_props_def)
  from demo_distances_ok [of "torch_rand (\<lambda>i. real i + 1) [1, 600, 3]"] obtain r where
    r: "demo_distances (torch_rand (\<lambda>i. real i + 1) [1, 600, 3]) demo_neighbors demo_cell
          demo_cell_offset demo_neighbor_mask = Inr r"
       "shape r = [1, 600, 1]" "vals r ! 0 = sqrt 27"
    by (auto simp: shape_torch_rand vals_torch_rand_nth)
  from demo_smearing_layer_ok [of 0 5 2 r] r(2) obtain f where
    f: "demo_smearing_layer 0 5 2 r = Inr f" "shape f = [1, 600, 1, 2]"
    by auto
  have "forward_setup self rnd demo_inputs = Inr (x, r, demo_neighbors, demo_neighbor_mask, f)"
    using x(1) li r(1) f(1) assms(4-7)
    by (simp add: forward_setup_def select_props_def getitem_def demo_inputs_def Let_def)
  with x r f show ?thesis by blast
qed

lemma demo_model_fields:
  "chargeEmbedding demo_model" "props_dense demo_model = demo_dense 8 2 None"
  "embedding demo_model = Some (demo_embedding 10 2)" "selectFet demo_model = None"
  "distances demo_model = demo_distances"
  "distance_expansion demo_model = demo_smearing_layer 0 5 2"
  "newpos demo_model = torch_rand (\<lambda>i. real i + 1) [1, 600, 3]"
  "interactions demo_model = [demo_block 4]" "return_intermediate demo_model = False"
  by (simp_all add: demo_model_def)

lemma demo_model3_fields:
  "chargeEmbedding demo_model3" "props_dense demo_model3 = demo_dense 8 1 None"
  "embedding demo_model3 = Some (demo_embedding 10 1)" "selectFet demo_model3 = None"
  "distances demo_model3 = demo_distances"
  "distance_expansion demo_model3 = demo_smearing_layer 0 5 2"
  "newpos demo_model3 = torch_rand (\<lambda>i. real i + 1) [1, 600, 3]"
  "return_intermediate demo_model3 = False"
  by (simp_all add: demo_model3_def demo_model_def)

lemma demo_setup:
  "\<exists>x r f. forward_setup demo_model rnd demo_inputs
               = Inr (x, r, demo_neighbors, demo_neighbor_mask, f)
       \<and> shape x = [1, 600, 4] \<and> length (vals x) = 2400
       \<and> shape r = [1, 600, 1] \<and> vals r ! 0 = sqrt 27
       \<and> shape f = [1, 600, 1, 2]"
  using demo_setup_ok [OF demo_model_fields(1-7), of rnd] by simp

lemma demo3_setup:
  "\<exists>x r f. forward_setup (demo_model3\<lparr>interactions := bs\<rparr>) rnd demo_inputs
               = Inr (x, r, demo_neighbors, demo_neighbor_mask, f)
       \<and> shape x = [1, 600, 2]"
proof -
  have "\<exists>x r f. forward_setup (demo_model3\<lparr>interactions := bs\<rparr>) rnd demo_inputs
               = Inr (x, r, demo_neighbors, demo_neighbor_mask, f)
       \<and> shape x = [1, 600, 1 + 1] \<and> length (vals x) = 600 * (1 + 1)
       \<and> shape r = [1, 600, 1] \<and> vals r ! 0 = sqrt 27
       \<and> shape f = [1, 600, 1, 2]"
    by (rule demo_setup_ok) (simp_all add: demo_model3_fields)
  then show ?thesis by auto
qed

lemma demo_forward:
  "\<exists>x. SchNet_forward demo_model rnd demo_inputs = Inr (x, None) \<and> shape x = [1, 600, 4]"
proof -
  from demo_setup [of rnd] obtain x r f where
    s: "forward_setup demo_model rnd demo_inputs
          = Inr (x, r, demo_neighbors, demo_neighbor_mask, f)"
    and sh: "shape x = [1, 600, 4]" "shape r = [1, 600, 1]" "shape f = [1, 600, 1, 2]"
    by blast
  from demo_block_step_ok [OF sh] obtain x' where
    "block_step (demo_block 4) r demo_neighbors demo_neighbor_mask f x = Inr x'"
    "shape x' = [1, 600, 4]"
    by blast
  with s show ?thesis
    by (simp add: SchNet_forward_def demo_model_fields interaction_loop_step
        del: interaction_loop.simps(2))
qed

lemma demo5_forward:
  "\<exists>x0 x1 x2. SchNet_forward demo_model5 rnd demo_inputs = Inr (x2, Some [x0, x1, x2])"
proof -
  from demo_setup [of rnd] obtain x r f where
    s: "forward_setup demo_model rnd demo_inputs
          = Inr (x, r, demo_neighbors, demo_neighbor_mask, f)"
    and sh: "shape x = [1, 600, 4]" "shape r = [1, 600, 1]" "shape f = [1, 600, 1, 2]"
    by blast
  from demo_block_step_ok [OF sh] obtain x1 where
    x1: "block_step (demo_block 4) r demo_neighbors demo_neighbor_mask f x = Inr x1"
        "shape x1 = [1, 600, 4]"
    by blast
  from demo_block_step_ok [OF x1(2) sh(2,3)] obtain x2 where
    x2: "block_step (demo_block 4) r demo_neighbors demo_neighbor_mask f x1 = Inr x2"
    by blast
  have "SchNet_forward demo_model5 rnd demo_inputs = Inr (x2, Some [x, x1, x2])"
    unfolding SchNet_forward_def demo_model5_def forward_setup_ignores_loop s
    using x1(1) x2 by (simp add: interaction_loop_step del: interaction_loop.simps(2))
  then show ?thesis by blast
qed

lemma demo3_forward0:
  "\<exists>x. SchNet_forward (demo_model3\<lparr>interactions := []\<rparr>) rnd demo_inputs = Inr (x, None)
       \<and> shape x = [1, 600, 2]"
proof -
  from demo3_setup [of "[]" rnd] obtain x r f where
    "forward_setup (demo_model3\<lparr>interactions := []\<rparr>) rnd demo_inputs
       = Inr (x, r, demo_neighbors, demo_neighbor_mask, f)" "shape x = [1, 600, 2]"
    by blast
  then show ?thesis
    by (simp add: SchNet_forward_def demo_model3_fields)
qed

lemma demo_n_atoms: "sum_dim1_keepdim demo_atom_mask = Inr (Tensor [1, 1] [600])"
proof -
  have "foldl (+) 0 (map (\<lambda>k. elem_at demo_atom_mask ([0, 0][1 := k])) [0..<600]) = 0 + real 600 * 1"
    by (rule foldl_plus_const) (simp add: elem_at_def demo_atom_mask_def)
  then show ?thesis
    by (simp add: sum_dim1_keepdim_def demo_atom_mask_def Let_def)
qed

lemma demo_charge_term:
  "tensor_div (Tensor [1, 1] [600]) (Tensor [1, 1] [600 :: real]) = Inr (Tensor [1, 1] [1])"
  "unsqueeze1 (Tensor [1, 1] [1 :: real]) = Inr (Tensor [1, 1, 1] [1])"
  "tensor_mul (Tensor [1, 1, 1] [1]) (Tensor [1, 4] [1, 2, 3, 4 :: real])
     = Inr (Tensor [1, 1, 4] [1, 2, 3, 4])"
  by (simp_all add: tensor_div_def tensor_mul_def tensor_binop_def broadcast_shapes_def
      unsqueeze1_def bidx_def elem_at_def small_upt)

lemma demo_add_charge:
  assumes "shape x = [1, 600, 4]"
  shows "\<exists>xc. add_charge demo_model_c demo_inputs_c demo_atom_mask x = Inr xc
            \<and> vals xc ! 0 = vals x ! 0 + 1"
proof -
  have step: "add_charge demo_model_c demo_inputs_c demo_atom_mask x
                = tensor_add x (Tensor [1, 1, 4] [1, 2, 3, 4])"
    using demo_charge_term
    by (simp add: add_charge_def demo_n_atoms getitem_def getattr_def
        demo_model_c_def demo_inputs_c_def)
  have "broadcast_shapes [1, 600, 4] [1, 1, 4] = Some [1, 600, 4]"
    by (simp add: broadcast_shapes_def)
  with assms obtain xc where
    xc: "tensor_binop (+) x (Tensor [1, 1, 4] [1, 2, 3, 4]) = Inr xc" and "shape xc = [1, 600, 4]"
    by (simp add: tensor_binop_def)
  then have "0 \<notin> set (shape xc)" by simp
  from tensor_binop_first [OF xc this] xc step show ?thesis
    by (simp add: tensor_add_def)
qed

lemma demo_R_distance:
  "\<exists>r. demo_distances demo_R demo_neighbors demo_cell demo_cell_offset demo_neighbor_mask = Inr r
       \<and> vals r ! 0 = 1"
proof -
  have "shape demo_R = [1, 600, 3]" by (simp add: demo_R_def)
  from demo_distances_ok [OF this] show ?thesis
    by (auto simp: demo_R_def)
qed

lemma demo3_forward1: "\<exists>e. SchNet_forward demo_model3 rnd demo_inputs = Inl e"
proof (cases "SchNet_forward demo_model3 rnd demo_inputs")
  case (Inl e)
  then show ?thesis by blast
next
  case (Inr out)
  obtain x r where "out = (x, r)" by (cases out) auto
  with Inr have fw: "SchNet_forward demo_model3 rnd demo_inputs = Inr (x, r)" by simp
  have "arg_chargeEmbedding demo_args3" "odd (arg_n_atom_basis demo_args3)"
    "Properties_Z demo_inputs = Some demo_Z" "shape demo_Z = [1, 600]"
    "props demo_inputs = Some demo_props" "shape demo_props = [1, 600, 8]"
    by (simp_all add: demo_args3_def demo_args_def demo_inputs_def demo_Z_def demo_props_def)
  from forward_odd_width [OF demo3_init this fw] show ?thesis
    by (simp add: demo_args3_def demo_args_def)
qed



section \<open>The claims\<close>

text \<open>
  Claim C1 says that the distances \<open>r_ij\<close> read by the interaction blocks are computed
  from the positions of the batch, \<^verbatim>\<open>inputs[Properties.R]\<close>. The code does otherwise
  (line 249 assigns \<^verbatim>\<open>self.newpos\<close> and leaves the batch positions in a comment): for
  every constructed network and every batch on which the setup of \<^verbatim>\<open>forward\<close> returns,
  \<open>r_ij\<close> is the distance layer applied to the random tensor of shape \<open>(1, 600, 3)\<close> that
  the constructor drew, with the neighbours, cell, offsets and mask of the batch.
\<close>

theorem C1_r_ij_from_newpos:
  assumes "SchNet_init nn a = Inr self"
    and "forward_setup self rnd inputs = Inr (x, r_ij, nb, nm, f_ij)"
  shows "\<exists>cell off. Properties_cell inputs = Some cell \<and> Properties_cell_offset inputs = Some off
           \<and> AtomDistances nn (torch_rand (init_vector nn P_newpos) [1, 600, 3]) nb cell off nm = Inr r_ij"
proof -
  from forward_setup_Inr [OF assms(2)] obtain cell off where
    "Properties_cell inputs = Some cell" "Properties_cell_offset inputs = Some off"
    "distances self (newpos self) nb cell off nm = Inr r_ij"
    by blast
  with SchNet_init_fields(7,8) [OF assms(1)] show ?thesis by simp
qed

text \<open>
  C1 at a batch of 600 atoms on a line, one unit apart: the first atom is at distance 1
  from its neighbour, while the first entry of the \<open>r_ij\<close> that \<^verbatim>\<open>forward\<close> computes is
  the distance of the first two rows of \<^verbatim>\<open>self.newpos\<close>, the square root of 27 for the
  values drawn here.
\<close>

theorem C1_failing_input:
  "Properties_R demo_inputs = Some demo_R
   \<and> (\<exists>x r f r'.
        forward_setup demo_model (\<lambda>i. 0) demo_inputs
          = Inr (x, r, demo_neighbors, demo_neighbor_mask, f)
      \<and> AtomDistances demo_nn (torch_rand (init_vector demo_nn P_newpos) [1, 600, 3])
            demo_neighbors demo_cell demo_cell_offset demo_neighbor_mask = Inr r
      \<and> vals r ! 0 = sqrt 27
      \<and> AtomDistances demo_nn demo_R demo_neighbors demo_cell demo_cell_offset demo_neighbor_mask
          = Inr r'
      \<and> vals r' ! 0 = 1)"
proof -
  from demo_setup [of "\<lambda>i. 0"] obtain x r f where
    s: "forward_setup demo_model (\<lambda>i. 0) demo_inputs
          = Inr (x, r, demo_neighbors, demo_neighbor_mask, f)"
    and r0: "vals r ! 0 = sqrt 27"
    by blast
  from C1_r_ij_from_newpos [OF demo_init s] have
    "AtomDistances demo_nn (torch_rand (init_vector demo_nn P_newpos) [1, 600, 3])
       demo_neighbors demo_cell demo_cell_offset demo_neighbor_mask = Inr r"
    by (simp add: demo_inputs_def)
  moreover from demo_R_distance obtain r' where
    "AtomDistances demo_nn demo_R demo_neighbors demo_cell demo_cell_offset demo_neighbor_mask
       = Inr r'" "vals r' ! 0 = 1"
    by (auto simp: demo_nn_layers)
  moreover have "Properties_R demo_inputs = Some demo_R"
    by (simp add: demo_inputs_def)
  ultimately show ?thesis using s r0 by blast
qed

text \<open>
  Claim C2 says that a network constructed with \<^verbatim>\<open>charged_systems=True\<close> adds the
  charge vector to \<open>x\<close> before the first interaction block when the batch has a charge
  entry. The code does otherwise: the body of the branch is written (lines 296 to 299)
  and the constructor allocates \<^verbatim>\<open>self.charge\<close>, but the condition of line 295 starts
  with the constant \<^verbatim>\<open>False\<close>, so the branch never runs. Whatever \<^verbatim>\<open>charged_systems\<close>,
  \<^verbatim>\<open>self.charge\<close> and the charge entry of the batch are, the tensors that enter the
  loop and the result of \<^verbatim>\<open>forward\<close> are those of the network and batch without them.
\<close>

theorem C2_charge_never_added:
  "forward_setup (self\<lparr>charged_systems := c, charge := q\<rparr>) rnd (inputs\<lparr>Properties_charge := ch\<rparr>)
     = forward_setup self rnd inputs
   \<and> SchNet_forward (self\<lparr>charged_systems := c, charge := q\<rparr>) rnd (inputs\<lparr>Properties_charge := ch\<rparr>)
     = SchNet_forward self rnd inputs"
  by (simp add: SchNet_forward_def forward_setup_def select_props_def initial_x_def Let_def
      cong: option.case_cong if_cong)

text \<open>
  C2 at the network constructed with the charge feature and the batch of 600 atoms with
  total charge 600: the \<open>x\<close> that enters the loop is the initial feature tensor, whose
  first entry lines 296 to 299 would have raised by 1.
\<close>

theorem C2_failing_input:
  "charged_systems demo_model_c
   \<and> Properties_charge demo_inputs_c = Some (Tensor [1, 1] [600])
   \<and> SchNet_init demo_nn demo_args_c = Inr demo_model_c
   \<and> (\<exists>x r f xc.
        forward_setup demo_model_c (\<lambda>i. 0) demo_inputs_c
          = Inr (x, r, demo_neighbors, demo_neighbor_mask, f)
      \<and> initial_x demo_model_c demo_Z demo_props = Inr x
      \<and> add_charge demo_model_c demo_inputs_c demo_atom_mask x = Inr xc
      \<and> vals xc ! 0 = vals x ! 0 + 1)"
proof -
  from demo_setup [of "\<lambda>i. 0"] obtain x r f where
    s: "forward_setup demo_model (\<lambda>i. 0) demo_inputs
          = Inr (x, r, demo_neighbors, demo_neighbor_mask, f)"
    and sx: "shape x = [1, 600, 4]"
    by blast
  from C2_charge_never_added [where self = demo_model and c = True
          and q = "Some (Tensor [1, 4] [1, 2, 3, 4])" and rnd = "\<lambda>i. 0"
          and ch = "Some (Tensor [1, 1] [600])" and inputs = demo_inputs] s
  have sc: "forward_setup demo_model_c (\<lambda>i. 0) demo_inputs_c
              = Inr (x, r, demo_neighbors, demo_neighbor_mask, f)"
    by (simp add: demo_model_c_def demo_inputs_c_def)
  from forward_setup_Inr [OF sc] have ix: "initial_x demo_model_c demo_Z demo_props = Inr x"
    by (auto simp: demo_inputs_c_def demo_inputs_def demo_model_c_def demo_model_def
        select_props_def getitem_def)
  from demo_add_charge [OF sx] obtain xc where
    "add_charge demo_model_c demo_inputs_c demo_atom_mask x = Inr xc"
    "vals xc ! 0 = vals x ! 0 + 1"
    by blast
  with sc ix demo_c_init show ?thesis
    by (auto simp: demo_model_c_def demo_inputs_c_def)
qed

text \<open>
  Claim C3 says that the feature tensor returned by \<^verbatim>\<open>forward\<close> has shape
  \<open>(B, A, F)\<close> for every width \<open>F\<close>, odd widths in combined mode included. The code does
  otherwise there: the embedding and the property layer are each \<^verbatim>\<open>int(F / 2)\<close> wide
  beside interaction blocks of width \<open>F\<close>. For every network constructed in combined
  mode with an odd \<open>F\<close> and every batch with atomic numbers of shape \<open>(B, A)\<close> and
  properties of shape \<open>(B, A, P)\<close>, a feature tensor that \<^verbatim>\<open>forward\<close> returns has last
  extent \<open>F - 1\<close>, so never the shape \<open>(B, A, F)\<close>.
\<close>

theorem C3_odd_width_shape:
  assumes "SchNet_init nn a = Inr self"
    and "arg_chargeEmbedding a"
    and "odd (arg_n_atom_basis a)"
    and "Properties_Z inputs = Some z" and "shape z = [B, A]"
    and "props inputs = Some p" and "shape p = [B, A, P]"
    and "SchNet_forward self rnd inputs = Inr (x, r)"
  shows "last (shape x) = arg_n_atom_basis a - 1 \<and> shape x \<noteq> [B, A, arg_n_atom_basis a]"
proof -
  from forward_odd_width [OF assms] have "last (shape x) = arg_n_atom_basis a - 1" by simp
  moreover have "arg_n_atom_basis a - 1 \<noteq> arg_n_atom_basis a"
    using assms(3) by (cases "arg_n_atom_basis a") auto
  ultimately show ?thesis by auto
qed

text \<open>
  C3 at the width 3 and the batch of 600 atoms: constructed without interaction blocks
  the network returns a tensor of shape \<open>(1, 600, 2)\<close>, and constructed with one block
  it raises.
\<close>

theorem C3_failing_input:
  "arg_chargeEmbedding demo_args3 \<and> arg_n_atom_basis demo_args3 = 3
   \<and> Properties_Z demo_inputs = Some demo_Z \<and> shape demo_Z = [1, 600]
   \<and> props demo_inputs = Some demo_props \<and> shape demo_props = [1, 600, 8]
   \<and> SchNet_init demo_nn (demo_args3\<lparr>arg_n_interactions := 0\<rparr>)
       = Inr (demo_model3\<lparr>interactions := []\<rparr>)
   \<and> (\<exists>x. SchNet_forward (demo_model3\<lparr>interactions := []\<rparr>) (\<lambda>i. 0) demo_inputs = Inr (x, None)
          \<and> shape x = [1, 600, 2] \<and> shape x \<noteq> [1, 600, arg_n_atom_basis demo_args3])
   \<and> SchNet_init demo_nn demo_args3 = Inr demo_model3
   \<and> (\<exists>e. SchNet_forward demo_model3 (\<lambda>i. 0) demo_inputs = Inl e)"
proof -
  have a: "arg_chargeEmbedding (demo_args3\<lparr>arg_n_interactions := 0\<rparr>)"
    "odd (arg_n_atom_basis (demo_args3\<lparr>arg_n_interactions := 0\<rparr>))"
    by (simp_all add: demo_args3_def demo_args_def)
  have b: "Properties_Z demo_inputs = Some demo_Z" "shape demo_Z = [1, 600]"
    "props demo_inputs = Some demo_props" "shape demo_props = [1, 600, 8]"
    by (simp_all add: demo_inputs_def demo_Z_def demo_props_def)
  from demo3_forward0 [of "\<lambda>i. 0"] obtain x where
    x: "SchNet_forward (demo_model3\<lparr>interactions := []\<rparr>) (\<lambda>i. 0) demo_inputs = Inr (x, None)"
       "shape x = [1, 600, 2]"
    by blast
  from C3_odd_width_shape [OF demo3_init0 a b x(1)]
  have "shape x \<noteq> [1, 600, arg_n_atom_basis demo_args3]"
    by (simp add: demo_args3_def demo_args_def)
  with x b demo3_init0 demo3_init demo3_forward1 [of "\<lambda>i. 0"] show ?thesis
    by (auto simp: demo_args3_def demo_args_def)
qed

text \<open>
  Claim C4, amended. The constructor does not check the parity of \<^verbatim>\<open>n_atom_basis\<close>, so
  combined mode with an odd width raises no configuration error and can return a
  network. A network so constructed has an embedding and a property layer of width
  \<^verbatim>\<open>int(n_atom_basis / 2)\<close> each; when the width is at least 3 and there is at least one
  interaction block it is not usable: \<^verbatim>\<open>forward\<close> raises on every batch with atomic
  numbers of shape \<open>(B, A)\<close> and properties of shape \<open>(B, A, P)\<close>.
\<close>

theorem C4_odd_width_constructs_unusable:
  assumes init: "SchNet_init nn a = Inr self"
    and comb: "arg_chargeEmbedding a"
    and odd: "odd (arg_n_atom_basis a)"
  shows "map_option embedding_dim (embedding self) = Some (arg_n_atom_basis a div 2)
       \<and> out_features (props_dense self) = arg_n_atom_basis a div 2
       \<and> (3 \<le> arg_n_atom_basis a \<longrightarrow> 1 \<le> arg_n_interactions a \<longrightarrow>
            Properties_Z inputs = Some z \<longrightarrow> shape z = [B, A] \<longrightarrow>
            props inputs = Some p \<longrightarrow> shape p = [B, A, P] \<longrightarrow>
            (\<exists>e. SchNet_forward self rnd inputs = Inl e))"
proof -
  have feat: "init_features nn a = Inr (embedding self, props_dense self)"
    by (rule SchNet_init_fields(1) [OF init])
  from init_features_dense(3) [OF feat comb] init_features_dense(2) [OF feat] comb
  have widths: "map_option embedding_dim (embedding self) = Some (arg_n_atom_basis a div 2)"
    "out_features (props_dense self) = arg_n_atom_basis a div 2"
    by auto
  have "\<exists>e. SchNet_forward self rnd inputs = Inl e"
    if big: "3 \<le> arg_n_atom_basis a" and n: "1 \<le> arg_n_interactions a"
      and z: "Properties_Z inputs = Some z" "shape z = [B, A]"
      and p: "props inputs = Some p" "shape p = [B, A, P]"
  proof (cases "SchNet_forward self rnd inputs")
    case (Inl e)
    then show ?thesis by blast
  next
    case (Inr out)
    obtain x r where "out = (x, r)" by (cases out) auto
    with Inr have "SchNet_forward self rnd inputs = Inr (x, r)" by simp
    from forward_odd_width [OF init comb odd z p this] n big show ?thesis by simp
  qed
  with widths show ?thesis by blast
qed

text \<open>
  C4 at width 3 with one block: construction returns the network, both layers are one
  wide, and \<^verbatim>\<open>forward\<close> raises on the batch of 600 atoms.
\<close>

theorem C4_witness:
  "SchNet_init demo_nn demo_args3 = Inr demo_model3
   \<and> map_option embedding_dim (embedding demo_model3) = Some 1
   \<and> out_features (props_dense demo_model3) = 1
   \<and> (\<exists>e. SchNet_forward demo_model3 (\<lambda>i. 0) demo_inputs = Inl e)"
proof -
  have a: "arg_chargeEmbedding demo_args3" "odd (arg_n_atom_basis demo_args3)"
    by (simp_all add: demo_args3_def demo_args_def)
  from C4_odd_width_constructs_unusable [OF demo3_init a,
      of demo_inputs demo_Z 1 600 demo_props 8 "\<lambda>i. 0"]
  show ?thesis
    using demo3_init
    by (simp add: demo_args3_def demo_args_def demo_inputs_def demo_Z_def demo_props_def)
qed

text \<open>
  C4 as stated fails: construction in combined mode with the odd width 3 returns a
  network and no error.
\<close>

theorem C4_counterexample:
  "arg_chargeEmbedding demo_args3 \<and> odd (arg_n_atom_basis demo_args3)
   \<and> SchNet_init demo_nn demo_args3 = Inr demo_model3"
  using demo3_init by (simp add: demo_args3_def demo_args_def)

text \<open>
  Claim C5. When the network is constructed with \<^verbatim>\<open>return_intermediate=True\<close> and
  \<open>N = n_interactions\<close> blocks and \<^verbatim>\<open>forward\<close> returns, it returns besides \<open>x\<close> a list
  of exactly \<open>N + 1\<close> tensors: the first is the feature tensor that the setup produced,
  each next one is the loop body of the next block applied to the one before, and the
  last is \<open>x\<close>.
\<close>

theorem C5_intermediates:
  assumes init: "SchNet_init nn a = Inr self"
    and ri: "arg_return_intermediate a"
    and fw: "SchNet_forward self rnd inputs = Inr (x, r)"
  shows "\<exists>xs x0 r_ij nb nm f_ij.
           r = Some xs
         \<and> length xs = nat (arg_n_interactions a) + 1
         \<and> forward_setup self rnd inputs = Inr (x0, r_ij, nb, nm, f_ij)
         \<and> xs ! 0 = x0
         \<and> last xs = x
         \<and> (\<forall>i<nat (arg_n_interactions a).
               block_step (interactions self ! i) r_ij nb nm f_ij (xs ! i) = Inr (xs ! Suc i))"
proof -
  have ri': "return_intermediate self" using SchNet_init_fields(5) [OF init] ri by simp
  have len: "length (interactions self) = nat (arg_n_interactions a)"
    by (rule init_interactions_blocks(1) [OF SchNet_init_fields(2) [OF init]])
  from SchNet_forward_Inr [OF fw] ri' obtain x0 r_ij nb nm f_ij xs where
    stp: "forward_setup self rnd inputs = Inr (x0, r_ij, nb, nm, f_ij)" and
    loop: "interaction_loop (interactions self) True r_ij nb nm f_ij x0 [x0] = Inr (x, xs)" and
    r: "r = Some xs"
    by auto
  from loop_trace [OF loop] obtain zs where
    zs: "xs = [x0] @ zs" "length zs = length (interactions self)" "last (x0 # zs) = x"
        "\<forall>i<length (interactions self).
           block_step (interactions self ! i) r_ij nb nm f_ij ((x0 # zs) ! i) = Inr (zs ! i)"
    by blast
  from zs len have "length xs = nat (arg_n_interactions a) + 1" "xs ! 0 = x0" "last xs = x"
    "\<forall>i<nat (arg_n_interactions a).
       block_step (interactions self ! i) r_ij nb nm f_ij (xs ! i) = Inr (xs ! Suc i)"
    by simp_all
  with r stp show ?thesis by blast
qed

text \<open>C5 at the concrete network with two blocks: three tensors are recorded.\<close>

theorem C5_witness:
  "\<exists>x xs. SchNet_forward demo_model5 (\<lambda>i. 0) demo_inputs = Inr (x, Some xs)
         \<and> length xs = nat (arg_n_interactions demo_args5) + 1"
proof -
  have ri: "arg_return_intermediate demo_args5"
    by (simp add: demo_args5_def)
  from demo5_forward [of "\<lambda>i. 0"] obtain x0 x1 x2 where
    fw: "SchNet_forward demo_model5 (\<lambda>i. 0) demo_inputs = Inr (x2, Some [x0, x1, x2])"
    by blast
  from C5_intermediates [OF demo5_init ri fw] have
    "length [x0, x1, x2] = nat (arg_n_interactions demo_args5) + 1"
    by auto
  with fw show ?thesis by blast
qed





text \<open>
  Claim C8. Two batches that differ only in the positions entry (present with any
  value, or absent) give the same result of \<^verbatim>\<open>forward\<close> on the same network, whatever
  the random draws of the two calls.
\<close>

theorem C8_positions_ignored:
  "SchNet_forward self rnda (inputs\<lparr>Properties_R := ra\<rparr>)
     = SchNet_forward self rndb (inputs\<lparr>Properties_R := rb\<rparr>)"
  by (simp add: SchNet_forward_def forward_setup_def select_props_def Let_def
      cong: option.case_cong)

text \<open>C8 at the concrete batch with its positions entry removed.\<close>

theorem C8_witness:
  "\<exists>x. SchNet_forward demo_model (\<lambda>i. 0) (demo_inputs\<lparr>Properties_R := None\<rparr>) = Inr (x, None)
      \<and> SchNet_forward demo_model (\<lambda>i. 0) demo_inputs = Inr (x, None)"
proof -
  have "demo_inputs\<lparr>Properties_R := Some demo_R\<rparr> = demo_inputs"
    by (simp add: demo_inputs_def)
  with C8_positions_ignored [where self = demo_model and rnda = "\<lambda>i. 0" and inputs = demo_inputs
         and ra = None and rndb = "\<lambda>i. 0" and rb = "Some demo_R"]
  have "SchNet_forward demo_model (\<lambda>i. 0) (demo_inputs\<lparr>Properties_R := None\<rparr>)
      = SchNet_forward demo_model (\<lambda>i. 0) demo_inputs"
    by simp
  with demo_forward [of "\<lambda>i. 0"] show ?thesis by auto
qed

text \<open>
  Claim C9. The result of \<^verbatim>\<open>forward\<close> is the same whatever \<^verbatim>\<open>use_noise\<close>,
  \<^verbatim>\<open>noise_mean\<close> and \<^verbatim>\<open>noise_std\<close> are, and whatever the random draws of the call.
\<close>

theorem C9_noise_is_noop:
  "SchNet_forward (self\<lparr>use_noise := u, noise_mean := mu, noise_std := sd\<rparr>) rnda inputs
     = SchNet_forward self rndb inputs"
  by (simp add: SchNet_forward_def forward_setup_def select_props_def initial_x_def Let_def
      cong: option.case_cong if_cong)

text \<open>C9 at the concrete network with the noise switched on.\<close>

theorem C9_witness:
  "\<exists>x. SchNet_forward (demo_model\<lparr>use_noise := True, noise_mean := 3, noise_std := 2\<rparr>)
          (\<lambda>i. 1) demo_inputs = Inr (x, None)
      \<and> SchNet_forward demo_model (\<lambda>i. 0) demo_inputs = Inr (x, None)"
  using C9_noise_is_noop [where self = demo_model and u = True and mu = 3 and sd = 2
          and rnda = "\<lambda>i. 1" and inputs = demo_inputs and rndb = "\<lambda>i. 0"]
    demo_forward [of "\<lambda>i. 0"]
  by auto

text \<open>
  Claim C10. For a network constructed with \<^verbatim>\<open>selectFet=None\<close>, \<^verbatim>\<open>forward\<close> returns
  only on a batch that has auxiliary properties, of at least three dimensions (the
  slice \<^verbatim>\<open>props[:,:,7:8]\<close> is taken in every configuration) and with last extent 8.
\<close>

theorem C10_props_width_8:
  assumes init: "SchNet_init nn a = Inr self"
    and sel: "arg_selectFet a = None"
    and fw: "SchNet_forward self rnd inputs = Inr out"
  shows "\<exists>p. props inputs = Some p \<and> 3 \<le> length (shape p) \<and> last (shape p) = 8"
proof -
  obtain x r where out: "out = (x, r)" by (cases out) auto
  from SchNet_forward_Inr [OF fw [unfolded out]] obtain x0 r_ij nb nm f_ij where
    stp: "forward_setup self rnd inputs = Inr (x0, r_ij, nb, nm, f_ij)"
    by blast
  from forward_setup_Inr [OF stp] obtain z p li prp where
    p: "props inputs = Some p" and li: "slice_dim2 p 7 8 = Inr li" and
    prp: "select_props self inputs = Inr prp" and x0: "initial_x self z prp = Inr x0"
    by blast
  have "selectFet self = None" using SchNet_init_fields(4) [OF init] sel by simp
  with prp p have prp_p: "prp = p"
    by (simp add: select_props_None getitem_def)
  from x0 obtain q where q: "Dense_forward (props_dense self) p = Inr q"
    unfolding prp_p by (auto simp: initial_x_def bnd_eq_Inr split: if_splits)
  have "in_features (props_dense self) = 8"
    using init_features_dense(1) [OF SchNet_init_fields(1) [OF init]] sel by simp
  with Dense_forward_shape [OF q] have "last (shape p) = 8" by simp
  moreover from slice_dim2_shape [OF li] have "3 \<le> length (shape p)" by simp
  ultimately show ?thesis using p by simp
qed

text \<open>C10 at the concrete batch, whose auxiliary properties have eight columns.\<close>

theorem C10_witness:
  "map_option (\<lambda>p. last (shape p)) (props demo_inputs) = Some 8"
proof -
  have sel: "arg_selectFet demo_args = None"
    by (simp add: demo_args_def)
  from demo_forward [of "\<lambda>i. 0"] obtain x where
    fw: "SchNet_forward demo_model (\<lambda>i. 0) demo_inputs = Inr (x, None)"
    by blast
  from C10_props_width_8 [OF demo_init sel fw]
  obtain p where "props demo_inputs = Some p" "last (shape p) = 8" by blast
  then show ?thesis by simp
qed

end
